theory Spec2Isabelle
  imports Complex_Main "HOL-Library.AList"
begin

text \<open>
  A model of \<open>utils.py\<close>, the support module of a decision-focused learning workflow:
  the tensor helpers (\<open>trim_left\<close>, \<open>gather_incomplete_left\<close>, \<open>solve_lineqn\<close>), the
  metrics reporter \<open>print_metrics\<close>, the output capture (\<open>Capturing\<close>, \<open>capture\<close>) and
  the disk-backed cache of problem instances (\<open>find_saved_problem\<close>,
  \<open>init_if_not_saved\<close> under its \<open>lock\<close>).  The definitions come first, each next to
  the Python it renders; the properties follow.  The tensor runtime, the table library
  and the operating system are rendered as far as the module uses them.
\<close>

section \<open>Errors\<close>

text \<open>
  Every exception the module can raise or let through is a value.  \<open>RuntimeError\<close>
  stands for Python's \<open>RuntimeError\<close> and its subclasses (the linear-algebra failures
  of the tensor runtime among them); \<open>OtherError\<close> is any exception a collaborator
  (a constructor, a wrapped function) raises on its own.
\<close>

datatype error =
    IndexError
  | RuntimeError
  | ValueError
  | KeyError
  | TypeError
  | FileNotFoundError
  | UnpicklingError
  | ParserError
  | AttributeError
  | InvalidIndexError
  | OtherError string

section \<open>Tensors\<close>

text \<open>
  A tensor is its shape and its entries, read by a multi-index of the shape's length.
  Only entries at indices inside the shape are meaningful; every theorem below speaks
  about those only.
\<close>

record 'a tensor =
  shape :: "nat list"
  entry :: "nat list \<Rightarrow> 'a"

definition ndim :: "'a tensor \<Rightarrow> nat" where
  "ndim t = length (shape t)"

text \<open>All multi-indices of a shape, in row-major order.\<close>

fun indices :: "nat list \<Rightarrow> nat list list" where
  "indices [] = [[]]"
| "indices (d # ds) = concat (map (\<lambda>i. map ((#) i) (indices ds)) [0..<d])"

text \<open>
  \<open>tensor[i]\<close> for a non-negative integer \<open>i\<close>: the \<open>i\<close>-th slice along the first
  dimension.  A zero-dimensional tensor cannot be indexed, and \<open>i\<close> must be below the
  first dimension's size.
\<close>

definition getitem :: "'a tensor \<Rightarrow> nat \<Rightarrow> error + 'a tensor" where
  "getitem t i =
     (case shape t of
        [] \<Rightarrow> Inl IndexError
      | d # ds \<Rightarrow>
          if i < d then Inr \<lparr>shape = ds, entry = (\<lambda>ix. entry t (i # ix))\<rparr>
          else Inl IndexError)"

subsection \<open>trim_left\<close>

text \<open>
  \<^verbatim>\<open>
  def trim_left(tensor):
      while tensor.shape[0] == 1:
          tensor = tensor[0]
      return tensor
  \<close>
  \<open>tensor.shape[0]\<close> raises IndexError on a tensor of rank zero (its shape is the
  empty tuple).
\<close>

function trim_left :: "'a tensor \<Rightarrow> error + 'a tensor" where
  "trim_left t =
     (case shape t of
        [] \<Rightarrow> Inl IndexError
      | d # ds \<Rightarrow>
          if d = 1 then
            (case getitem t 0 of
               Inl e \<Rightarrow> Inl e
             | Inr t' \<Rightarrow> trim_left t')
          else Inr t)"
  by pat_completeness auto
termination
  by (relation "measure ndim") (auto simp: getitem_def ndim_def split: list.splits if_splits)

declare trim_left.simps [simp del]

subsection \<open>Indexing with new axes, expand, gather, squeeze\<close>

text \<open>
  \<open>I[(...,) + (None,) * k]\<close>: the ellipsis keeps every dimension of \<open>I\<close> and each
  \<open>None\<close> appends a dimension of size 1.  (A tuple multiplied by a non-positive number
  is empty, which is what truncating subtraction on \<open>nat\<close> gives for \<open>k\<close>.)
\<close>

definition index_newaxes :: "nat \<Rightarrow> 'a tensor \<Rightarrow> 'a tensor" where
  "index_newaxes k t =
     \<lparr>shape = shape t @ replicate k 1, entry = (\<lambda>ix. entry t (take (ndim t) ix))\<rparr>"

text \<open>
  \<open>t.expand(sizes)\<close>: \<open>sizes\<close> is aligned with the shape from the right; \<open>-1\<close> keeps a
  dimension, a dimension of size 1 is repeated to the requested size, and any other
  mismatch is a RuntimeError.  Sizes in front of the existing dimensions add new leading
  dimensions and may not be \<open>-1\<close>.
\<close>

definition expand_ok :: "int \<Rightarrow> nat \<Rightarrow> bool" where
  "expand_ok s d = (s = - 1 \<or> (0 \<le> s \<and> (nat s = d \<or> d = 1)))"

definition expand :: "int list \<Rightarrow> 'a tensor \<Rightarrow> error + 'a tensor" where
  "expand sizes t =
     (let n = length sizes; k = ndim t;
          new = take (n - k) sizes; old = drop (n - k) sizes
      in if n < k then Inl RuntimeError
         else if list_ex (\<lambda>s. s < 0) new then Inl RuntimeError
         else if \<not> list_all2 expand_ok old (shape t) then Inl RuntimeError
         else Inr \<lparr>shape = map nat new
                           @ map2 (\<lambda>s d. if s = - 1 then d else nat s) old (shape t),
                   entry = (\<lambda>ix. entry t
                              (map2 (\<lambda>d i. if d = 1 then 0 else i) (shape t) (drop (n - k) ix)))\<rparr>)"

text \<open>
  \<open>t.gather(dim, index)\<close>: the result has the index's shape and
  \<open>out[ix] = t[ix with position dim replaced by index[ix]]\<close>.  Both tensors have the
  same rank, the index is no larger than \<open>t\<close> in every other dimension, and every index
  value lies in \<open>[0, t.shape[dim])\<close>; otherwise the runtime raises.
\<close>

definition gather :: "nat \<Rightarrow> int tensor \<Rightarrow> 'a tensor \<Rightarrow> error + 'a tensor" where
  "gather axis idx t =
     (if ndim t \<le> axis then Inl IndexError
      else if ndim idx \<noteq> ndim t then Inl RuntimeError
      else if list_ex (\<lambda>d. d \<noteq> axis \<and> shape t ! d < shape idx ! d) [0..<ndim t]
        then Inl RuntimeError
      else if list_ex (\<lambda>ix. entry idx ix < 0 \<or> int (shape t ! axis) \<le> entry idx ix)
                (indices (shape idx))
        then Inl RuntimeError
      else Inr \<lparr>shape = shape idx,
                entry = (\<lambda>ix. entry t (ix[axis := nat (entry idx ix)]))\<rparr>)"

text \<open>
  \<open>t.squeeze(dim)\<close> removes dimension \<open>dim\<close> when its size is 1 and is the identity
  otherwise; on a rank-zero tensor only \<open>dim = 0\<close> is accepted.
\<close>

definition squeeze_dim :: "nat \<Rightarrow> 'a tensor \<Rightarrow> error + 'a tensor" where
  "squeeze_dim axis t =
     (if ndim t = 0 then (if axis = 0 then Inr t else Inl IndexError)
      else if ndim t \<le> axis then Inl IndexError
      else if shape t ! axis = 1
        then Inr \<lparr>shape = take axis (shape t) @ drop (Suc axis) (shape t),
                  entry = (\<lambda>ix. entry t (take axis ix @ [0] @ drop axis ix))\<rparr>
      else Inr t)"

subsection \<open>gather_incomplete_left\<close>

text \<open>
  \<^verbatim>\<open>
  def gather_incomplete_left(tensor, I):
      return tensor.gather(
          I.ndim,
          I[(...,) + (None,) * (tensor.ndim - I.ndim)]
            .expand((-1,) * (I.ndim + 1) + tensor.shape[I.ndim + 1:])
      ).squeeze(I.ndim)
  \<close>
\<close>

definition gather_incomplete_left :: "'a tensor \<Rightarrow> int tensor \<Rightarrow> error + 'a tensor" where
  "gather_incomplete_left tensor I =
     (case expand (replicate (ndim I + 1) (- 1) @ map int (drop (ndim I + 1) (shape tensor)))
             (index_newaxes (ndim tensor - ndim I) I) of
        Inl e \<Rightarrow> Inl e
      | Inr idx \<Rightarrow>
          (case gather (ndim I) idx tensor of
             Inl e \<Rightarrow> Inl e
           | Inr g \<Rightarrow> squeeze_dim (ndim I) g))"

subsection \<open>Elementwise operations, broadcasting and reductions\<close>

text \<open>
  Two shapes broadcast when, aligned from the right, each pair of sizes is equal or has a
  1; a missing leading dimension counts as 1.  \<open>project\<close> reads a tensor of shape \<open>sh\<close>
  at an index of the broadcast shape.
\<close>

fun broadcast_rev :: "nat list \<Rightarrow> nat list \<Rightarrow> nat list option" where
  "broadcast_rev [] ys = Some ys"
| "broadcast_rev (x # xs) [] = Some (x # xs)"
| "broadcast_rev (x # xs) (y # ys) =
     (if x = y \<or> y = 1 then map_option ((#) x) (broadcast_rev xs ys)
      else if x = 1 then map_option ((#) y) (broadcast_rev xs ys)
      else None)"

definition broadcast_shape :: "nat list \<Rightarrow> nat list \<Rightarrow> nat list option" where
  "broadcast_shape s1 s2 = map_option rev (broadcast_rev (rev s1) (rev s2))"

definition project :: "nat list \<Rightarrow> nat list \<Rightarrow> nat list" where
  "project sh ix = map2 (\<lambda>d i. if d = 1 then 0 else i) sh (drop (length ix - length sh) ix)"

definition tensor_map2 ::
  "('a \<Rightarrow> 'b \<Rightarrow> 'c) \<Rightarrow> 'a tensor \<Rightarrow> 'b tensor \<Rightarrow> error + 'c tensor" where
  "tensor_map2 f a b =
     (case broadcast_shape (shape a) (shape b) of
        None \<Rightarrow> Inl RuntimeError
      | Some sh \<Rightarrow>
          Inr \<lparr>shape = sh,
               entry = (\<lambda>ix. f (entry a (project (shape a) ix)) (entry b (project (shape b) ix)))\<rparr>)"

definition tensor_add :: "real tensor \<Rightarrow> real tensor \<Rightarrow> error + real tensor" where
  "tensor_add a b = tensor_map2 (+) a b"

definition scalar_mul :: "real \<Rightarrow> real tensor \<Rightarrow> real tensor" where
  "scalar_mul c t = \<lparr>shape = shape t, entry = (\<lambda>ix. c * entry t ix)\<rparr>"

definition neg :: "real tensor \<Rightarrow> real tensor" where
  "neg t = \<lparr>shape = shape t, entry = (\<lambda>ix. - entry t ix)\<rparr>"

definition zeros_like :: "real tensor \<Rightarrow> real tensor" where
  "zeros_like t = \<lparr>shape = shape t, entry = (\<lambda>ix. 0)\<rparr>"

text \<open>\<open>torch.eye(n)\<close>: the \<open>n \<times> n\<close> identity matrix.\<close>

definition eye :: "nat \<Rightarrow> real tensor" where
  "eye n = \<lparr>shape = [n, n], entry = (\<lambda>ix. if ix ! 0 = ix ! 1 then 1 else 0)\<rparr>"

text \<open>\<open>t.shape[-1]\<close>: the last size, IndexError on a rank-zero tensor.\<close>

definition shape_last :: "'a tensor \<Rightarrow> error + nat" where
  "shape_last t = (if shape t = [] then Inl IndexError else Inr (last (shape t)))"

text \<open>The entries in row-major order, and \<open>t.flatten()\<close>.\<close>

definition elems :: "'a tensor \<Rightarrow> 'a list" where
  "elems t = map (entry t) (indices (shape t))"

definition flatten :: "'a tensor \<Rightarrow> 'a tensor" where
  "flatten t = \<lparr>shape = [length (elems t)], entry = (\<lambda>ix. elems t ! (ix ! 0))\<rparr>"

text \<open>\<open>t.squeeze()\<close> drops every dimension of size 1.\<close>

fun squeeze_index :: "nat list \<Rightarrow> nat list \<Rightarrow> nat list" where
  "squeeze_index [] ix = []"
| "squeeze_index (d # ds) ix =
     (if d = 1 then 0 # squeeze_index ds ix
      else (case ix of [] \<Rightarrow> [] | i # r \<Rightarrow> i # squeeze_index ds r))"

definition squeeze :: "'a tensor \<Rightarrow> 'a tensor" where
  "squeeze t =
     \<lparr>shape = filter (\<lambda>d. d \<noteq> 1) (shape t),
      entry = (\<lambda>ix. entry t (squeeze_index (shape t) ix))\<rparr>"

text \<open>
  \<open>torch.stack(ts)\<close>: a new leading dimension over tensors of one common shape; an empty
  list and differing shapes are RuntimeErrors.
\<close>

definition stack :: "'a tensor list \<Rightarrow> error + 'a tensor" where
  "stack ts =
     (case ts of
        [] \<Rightarrow> Inl RuntimeError
      | t # r \<Rightarrow>
          if list_ex (\<lambda>u. shape u \<noteq> shape t) r then Inl RuntimeError
          else Inr \<lparr>shape = length ts # shape t,
                    entry = (\<lambda>ix. entry (ts ! hd ix) (tl ix))\<rparr>)"

text \<open>
  \<open>len(t)\<close> is the size of the first dimension; it is a TypeError on a rank-zero
  tensor.
\<close>

definition len :: "'a tensor \<Rightarrow> error + nat" where
  "len t = (case shape t of [] \<Rightarrow> Inl TypeError | d # ds \<Rightarrow> Inr d)"

text \<open>
  A Python float read off a tensor with \<open>.item()\<close> is a real number or \<open>nan\<close>; \<open>None\<close>
  stands for \<open>nan\<close>.  Arithmetic is exact: rounding is outside the model.
  \<open>t.mean()\<close> of a tensor without entries is \<open>nan\<close>.
\<close>

type_synonym scalar = "real option"

definition mean :: "real tensor \<Rightarrow> scalar" where
  "mean t =
     (let es = elems t
      in if es = [] then None else Some (sum_list es / real (length es)))"

text \<open>
  \<open>torch.nn.L1Loss()(input, target)\<close>: the mean of the absolute differences, after
  broadcasting the two tensors against each other.
\<close>

definition L1Loss :: "real tensor \<Rightarrow> real tensor \<Rightarrow> error + scalar" where
  "L1Loss input target =
     (case tensor_map2 (\<lambda>x y. \<bar>x - y\<bar>) input target of
        Inl e \<Rightarrow> Inl e
      | Inr d \<Rightarrow> Inr (mean d))"

subsection \<open>solve_lineqn\<close>

text \<open>
  \<^verbatim>\<open>
  def solve_lineqn(A, b, eps=1e-5):
      try:
          result = torch.linalg.solve(A, b)
      except RuntimeError:
          print(f"WARNING: The matrix was singular")
          result = torch.linalg.solve(A + eps * torch.eye(A.shape[-1]), b)
      return result
  \<close>
  The solver of the tensor runtime is a parameter, \<open>linalg_solve\<close>: nothing is assumed
  about it.  Standard output is the list of the lines printed so far.
\<close>

definition solve_lineqn ::
  "(real tensor \<Rightarrow> real tensor \<Rightarrow> error + real tensor) \<Rightarrow>
   real tensor \<Rightarrow> real tensor \<Rightarrow> real \<Rightarrow> string list \<Rightarrow> string list \<times> (error + real tensor)" where
  "solve_lineqn linalg_solve A b eps out =
     (case linalg_solve A b of
        Inr result \<Rightarrow> (out, Inr result)
      | Inl e \<Rightarrow>
          if e = RuntimeError then
            (let out' = out @ [''WARNING: The matrix was singular'']
             in case shape_last A of
                  Inl e' \<Rightarrow> (out', Inl e')
                | Inr n \<Rightarrow>
                    (case tensor_add A (scalar_mul eps (eye n)) of
                       Inl e' \<Rightarrow> (out', Inl e')
                     | Inr A' \<Rightarrow> (out', linalg_solve A' b)))
          else (out, Inl e))"

subsection \<open>print_metrics\<close>

text \<open>
  The collaborators of \<open>print_metrics\<close> are parameters: the predictor \<open>model\<close>, the
  decision problem with its two methods, and the surrogate loss \<open>loss_fn\<close>.  They are
  taken to return; an exception of theirs would pass through \<open>print_metrics\<close> unchanged.
  Features, targets and auxiliary data are tensors; \<open>.to(device)\<close> does not change a
  tensor's values.
\<close>

record 'z problem =
  get_decision :: "real tensor \<Rightarrow> real tensor \<Rightarrow> bool \<Rightarrow> 'z"
  get_objective :: "real tensor \<Rightarrow> 'z \<Rightarrow> real tensor \<Rightarrow> real tensor"

text \<open>The dictionary \<open>{'objective': ..., 'loss': ..., 'mae': ...}\<close> of one partition.\<close>

record metric =
  objective :: scalar
  loss :: scalar
  mae :: scalar

type_synonym dataset = "real tensor \<times> real tensor \<times> real tensor \<times> string"

type_synonym loss_function =
  "real tensor \<Rightarrow> real tensor \<Rightarrow> real tensor \<Rightarrow> string \<Rightarrow> nat \<Rightarrow> real tensor"

text \<open>
  \<^verbatim>\<open>
  losses = []
  for i in range(len(Xs)):
      pred = model(Xs[i]).squeeze()
      losses.append(loss_fn(pred, Ys[i], aux_data=Ys_aux[i], partition=partition, index=i))
  \<close>
\<close>

fun sample_losses ::
  "(real tensor \<Rightarrow> real tensor) \<Rightarrow> loss_function \<Rightarrow> real tensor \<Rightarrow> real tensor \<Rightarrow>
   real tensor \<Rightarrow> string \<Rightarrow> nat list \<Rightarrow> error + real tensor list" where
  "sample_losses model loss_fn Xs Ys Ys_aux pname [] = Inr []"
| "sample_losses model loss_fn Xs Ys Ys_aux pname (i # rest) =
     (case getitem Xs i of
        Inl e \<Rightarrow> Inl e
      | Inr x \<Rightarrow>
          (case getitem Ys i of
             Inl e \<Rightarrow> Inl e
           | Inr y \<Rightarrow>
               (case getitem Ys_aux i of
                  Inl e \<Rightarrow> Inl e
                | Inr a \<Rightarrow>
                    (case sample_losses model loss_fn Xs Ys Ys_aux pname rest of
                       Inl e \<Rightarrow> Inl e
                     | Inr ls \<Rightarrow> Inr (loss_fn (squeeze (model x)) y a pname i # ls)))))"

text \<open>
  The losses of one dataset, given its objectives:
  \<^verbatim>\<open>
  if partition!='test':
      losses = []
      for i in range(len(Xs)): ...
      losses = torch.stack(losses).flatten()
  else:
      losses = torch.zeros_like(objectives)
  \<close>
\<close>

definition partition_losses ::
  "(real tensor \<Rightarrow> real tensor) \<Rightarrow> loss_function \<Rightarrow> dataset \<Rightarrow> real tensor \<Rightarrow>
   error + real tensor" where
  "partition_losses model loss_fn ds objectives =
     (case ds of (Xs, Ys, Ys_aux, pname) \<Rightarrow>
        (if pname \<noteq> ''test'' then
           (case len Xs of
              Inl e \<Rightarrow> Inl e
            | Inr n \<Rightarrow>
                (case sample_losses model loss_fn Xs Ys Ys_aux pname [0..<n] of
                   Inl e \<Rightarrow> Inl e
                 | Inr ls \<Rightarrow>
                     (case stack ls of
                        Inl e \<Rightarrow> Inl e
                      | Inr s \<Rightarrow> Inr (flatten s))))
         else Inr (zeros_like objectives)))"

text \<open>
  The body of the loop over the datasets, up to the three numbers it reports:
  \<^verbatim>\<open>
  isTrain = (partition=='train') and (prefix != "Final")
  pred = model(Xs).squeeze().to(device)
  Zs_pred = problem.get_decision(pred, aux_data=Ys_aux, isTrain=isTrain)
  objectives = problem.get_objective(Ys, Zs_pred, aux_data=Ys_aux)
  if partition!='test': ... else: ...
  objective = objectives.mean().item()
  loss = losses.mean().item()
  mae = torch.nn.L1Loss()(losses, -objectives).item()
  \<close>
\<close>

definition partition_metrics ::
  "(real tensor \<Rightarrow> real tensor) \<Rightarrow> 'z problem \<Rightarrow> loss_function \<Rightarrow> string \<Rightarrow> dataset \<Rightarrow>
   error + metric" where
  "partition_metrics model problem loss_fn prefix ds =
     (case ds of (Xs, Ys, Ys_aux, pname) \<Rightarrow>
        (let isTrain = (pname = ''train'' \<and> prefix \<noteq> ''Final'');
             pred = squeeze (model Xs);
             Zs_pred = get_decision problem pred Ys_aux isTrain;
             objectives = get_objective problem Ys Zs_pred Ys_aux
         in case partition_losses model loss_fn ds objectives of
              Inl e \<Rightarrow> Inl e
            | Inr losses \<Rightarrow>
                (case L1Loss losses (neg objectives) of
                   Inl e \<Rightarrow> Inl e
                 | Inr m \<Rightarrow>
                     Inr \<lparr>objective = mean objectives, loss = mean losses, mae = m\<rparr>)))"

text \<open>
  The loop itself.  A printed line
  \<open>f"{prefix} {partition} DQ: {objective}, Loss: {loss}, MAE: {mae}"\<close> is recorded as
  the values it shows; \<open>metrics\<close> is the dictionary from partition names to the three
  numbers, a later partition of the same name replacing an earlier one.  The parameter
  \<open>loss_type\<close> is not used by the function.
\<close>

type_synonym metrics_line = "string \<times> string \<times> metric"

fun print_metrics_loop ::
  "(real tensor \<Rightarrow> real tensor) \<Rightarrow> 'z problem \<Rightarrow> loss_function \<Rightarrow> string \<Rightarrow> dataset list \<Rightarrow>
   metrics_line list \<Rightarrow> (string \<rightharpoonup> metric) \<Rightarrow> metrics_line list \<times> (error + (string \<rightharpoonup> metric))" where
  "print_metrics_loop model problem loss_fn prefix [] out metrics = (out, Inr metrics)"
| "print_metrics_loop model problem loss_fn prefix (ds # rest) out metrics =
     (case partition_metrics model problem loss_fn prefix ds of
        Inl e \<Rightarrow> (out, Inl e)
      | Inr m \<Rightarrow>
          print_metrics_loop model problem loss_fn prefix rest
            (out @ [(prefix, snd (snd (snd ds)), m)])
            (metrics(snd (snd (snd ds)) \<mapsto> m)))"

definition print_metrics ::
  "dataset list \<Rightarrow> (real tensor \<Rightarrow> real tensor) \<Rightarrow> 'z problem \<Rightarrow> 'lt \<Rightarrow> loss_function \<Rightarrow> string \<Rightarrow>
   metrics_line list \<Rightarrow> metrics_line list \<times> (error + (string \<rightharpoonup> metric))" where
  "print_metrics datasets model problem loss_type loss_fn prefix out =
     print_metrics_loop model problem loss_fn prefix datasets out Map.empty"

section \<open>Output capture\<close>

text \<open>
  \<open>sys.stdout\<close> is a reference to a stream: the real output of the process or a
  \<open>StringIO\<close> object, known by its identity.  The process state holds that reference,
  the text that reached the real output, whether the real output has been closed, the
  contents of the open \<open>StringIO\<close> objects and the environment.  A \<open>StringIO\<close> object
  that has been closed or freed has no contents.
\<close>

datatype stream = Console | StringIO nat

record pstate =
  sys_stdout :: stream
  console :: string
  console_closed :: bool
  buffers :: "nat \<rightharpoonup> string"
  next_id :: nat
  environ :: "string \<rightharpoonup> string"

text \<open>Writing to a closed stream raises ValueError; closing a stream twice is allowed.\<close>

definition stream_write :: "stream \<Rightarrow> string \<Rightarrow> pstate \<Rightarrow> error + pstate" where
  "stream_write s txt st =
     (case s of
        Console \<Rightarrow>
          if console_closed st then Inl ValueError
          else Inr (st\<lparr>console := console st @ txt\<rparr>)
      | StringIO n \<Rightarrow>
          (case buffers st n of
             None \<Rightarrow> Inl ValueError
           | Some b \<Rightarrow> Inr (st\<lparr>buffers := (buffers st)(n \<mapsto> b @ txt)\<rparr>)))"

definition stream_close :: "stream \<Rightarrow> pstate \<Rightarrow> pstate" where
  "stream_close s st =
     (case s of
        Console \<Rightarrow> st\<lparr>console_closed := True\<rparr>
      | StringIO n \<Rightarrow> st\<lparr>buffers := (buffers st)(n := None)\<rparr>)"

text \<open>
  A function run under capture is seen through what it does to standard output and how
  it ends.  It writes text to \<open>sys.stdout\<close> (\<open>print\<close>), closes it
  (\<open>sys.stdout.close()\<close>) or rebinds it (\<open>sys.stdout = s\<close>), any number of times, and
  then returns a value or raises; a write that raises ends the function with that
  exception.  The function has no reference to the \<open>Capturing\<close> object.
\<close>

datatype 'a prog =
  Write string "'a prog"
| Close "'a prog"
| Rebind stream "'a prog"
| Return 'a
| Raise error

fun run :: "'a prog \<Rightarrow> pstate \<Rightarrow> pstate \<times> (error + 'a)" where
  "run (Write txt p) st =
     (case stream_write (sys_stdout st) txt st of
        Inl e \<Rightarrow> (st, Inl e)
      | Inr st' \<Rightarrow> run p st')"
| "run (Close p) st = run p (stream_close (sys_stdout st) st)"
| "run (Rebind s p) st = run p (st\<lparr>sys_stdout := s\<rparr>)"
| "run (Return x) st = (st, Inr x)"
| "run (Raise e) st = (st, Inl e)"

text \<open>
  A function that only writes; the text of the writes of a function, in order; how a
  function ends when none of its writes raises; and the function that prints the given
  lines, each followed by a newline, and goes on as \<open>k\<close>.
\<close>

fun plain :: "'a prog \<Rightarrow> bool" where
  "plain (Write txt p) = plain p"
| "plain (Close p) = False"
| "plain (Rebind s p) = False"
| "plain (Return x) = True"
| "plain (Raise e) = True"

fun written :: "'a prog \<Rightarrow> string" where
  "written (Write txt p) = txt @ written p"
| "written (Close p) = written p"
| "written (Rebind s p) = written p"
| "written (Return x) = []"
| "written (Raise e) = []"

fun outcome :: "'a prog \<Rightarrow> error + 'a" where
  "outcome (Write txt p) = outcome p"
| "outcome (Close p) = outcome p"
| "outcome (Rebind s p) = outcome p"
| "outcome (Return x) = Inr x"
| "outcome (Raise e) = Inl e"

fun print_lines :: "string list \<Rightarrow> 'a prog \<Rightarrow> 'a prog" where
  "print_lines [] k = k"
| "print_lines (l # ls) k = Write (l @ [CHR 0x0A]) (print_lines ls k)"

text \<open>
  \<open>str.splitlines()\<close>: the text is cut at line boundaries, which are not kept; a
  carriage return followed by a line feed is one boundary, and a final boundary does not
  open another line.  Characters are code points below 256, so the boundaries are
  \<open>\n\<close>, \<open>\r\<close>, \<open>\v\<close>, \<open>\f\<close>, \<open>\x1c\<close>, \<open>\x1d\<close>, \<open>\x1e\<close> and \<open>\x85\<close>.
\<close>

definition linebreak :: "char \<Rightarrow> bool" where
  "linebreak c = (c \<in> set [CHR 0x0A, CHR 0x0D, CHR 0x0B, CHR 0x0C, CHR 0x1C, CHR 0x1D, CHR 0x1E, CHR 0x85])"

fun splitlines_from :: "string \<Rightarrow> string \<Rightarrow> string list" where
  "splitlines_from cur [] = (if cur = [] then [] else [cur])"
| "splitlines_from cur [c] = (if linebreak c then [cur] else [cur @ [c]])"
| "splitlines_from cur (c # d # cs) =
     (if c = CHR 0x0D \<and> d = CHR 0x0A then cur # splitlines_from [] cs
      else if linebreak c then cur # splitlines_from [] (d # cs)
      else splitlines_from (cur @ [c]) (d # cs))"

definition splitlines :: "string \<Rightarrow> string list" where
  "splitlines txt = splitlines_from [] txt"

text \<open>
  \<^verbatim>\<open>
  class Capturing(list):
      def __enter__(self):
          self._stdout = sys.stdout
          sys.stdout = self._stringio = StringIO()
          return self
      def __exit__(self, *args):
          self.extend(self._stringio.getvalue().splitlines())
          del self._stringio    # free up some memory
          sys.stdout = self._stdout
  \<close>
  The object is the list it extends together with its two attributes.  Reading an
  attribute that is not set raises AttributeError; \<open>getvalue()\<close> on a \<open>StringIO\<close>
  that has been closed raises ValueError, and the statements after it are not run.
\<close>

record Capturing =
  items :: "string list"
  stdout_attr :: "stream option"
  stringio_attr :: "nat option"

definition Capturing_new :: Capturing where
  "Capturing_new = \<lparr>items = [], stdout_attr = None, stringio_attr = None\<rparr>"

definition Capturing_enter :: "Capturing \<Rightarrow> pstate \<Rightarrow> Capturing \<times> pstate" where
  "Capturing_enter self st =
     (let n = next_id st
      in (self\<lparr>stdout_attr := Some (sys_stdout st), stringio_attr := Some n\<rparr>,
          st\<lparr>sys_stdout := StringIO n, buffers := (buffers st)(n \<mapsto> []), next_id := Suc n\<rparr>))"

definition Capturing_exit :: "Capturing \<Rightarrow> pstate \<Rightarrow> pstate \<times> (error + Capturing)" where
  "Capturing_exit self st =
     (case stringio_attr self of
        None \<Rightarrow> (st, Inl AttributeError)
      | Some n \<Rightarrow>
          (case buffers st n of
             None \<Rightarrow> (st, Inl ValueError)
           | Some txt \<Rightarrow>
               (let self1 = self\<lparr>items := items self @ splitlines txt\<rparr>;
                    self2 = self1\<lparr>stringio_attr := None\<rparr>;
                    st1 = st\<lparr>buffers := (buffers st)(n := None)\<rparr>
                in case stdout_attr self2 of
                     None \<Rightarrow> (st1, Inl AttributeError)
                   | Some s \<Rightarrow> (st1\<lparr>sys_stdout := s\<rparr>, Inr self2))))"

text \<open>
  \<open>with Capturing() as output: fn_output = fn(...)\<close>.  \<open>__exit__\<close> runs whether the body
  returns or raises; it returns \<open>None\<close>, so an exception of the body goes on to the
  caller after it, and an exception of \<open>__exit__\<close> itself takes the place of the
  body's result.  The result is the state, the \<open>output\<close> object and how the block
  ended.
\<close>

definition with_Capturing :: "'a prog \<Rightarrow> pstate \<Rightarrow> pstate \<times> Capturing \<times> (error + 'a)" where
  "with_Capturing body st =
     (case Capturing_enter Capturing_new st of (self, st1) \<Rightarrow>
        (case run body st1 of (st2, r) \<Rightarrow>
           (case Capturing_exit self st2 of
              (st3, Inl e) \<Rightarrow> (st3, self, Inl e)
            | (st3, Inr self') \<Rightarrow> (st3, self', r))))"

text \<open>
  \<^verbatim>\<open>
  def capture(fn):
      @functools.wraps(fn)
      def _fn(*args, **kwargs):
          with Capturing() as output:
              fn_output = fn(*args, **kwargs)
          if os.environ.get("LOG_OPT_STDOUT", False):
              print(output)
          return fn_output
      return _fn
  \<close>
  \<open>print(output)\<close> writes the list's representation and a newline; how Python renders
  a list of strings is the parameter \<open>repr\<close>.  An environment variable is truthy when it
  is set to a non-empty string.
\<close>

definition truthy_env :: "pstate \<Rightarrow> string \<Rightarrow> bool" where
  "truthy_env st name = (case environ st name of None \<Rightarrow> False | Some v \<Rightarrow> v \<noteq> [])"

definition capture :: "(string list \<Rightarrow> string) \<Rightarrow> 'a prog \<Rightarrow> pstate \<Rightarrow> pstate \<times> (error + 'a)" where
  "capture repr fn st =
     (case with_Capturing fn st of (st', output, r) \<Rightarrow>
        (case r of
           Inl e \<Rightarrow> (st', Inl e)
         | Inr fn_output \<Rightarrow>
             if truthy_env st' ''LOG_OPT_STDOUT''
             then (case stream_write (sys_stdout st') (repr (items output) @ [CHR 0x0A]) st' of
                     Inl e \<Rightarrow> (st', Inl e)
                   | Inr st'' \<Rightarrow> (st'', Inr fn_output))
             else (st', Inr fn_output)))"

section \<open>The problem index and cache\<close>

subsection \<open>Tables\<close>

text \<open>
  A cell of the index table is missing (\<open>NaN\<close>, which is also what Python's \<open>None\<close>
  becomes in a table), a string, or another scalar as the table holds it in the column's
  type.  Keyword-argument values are cells.
\<close>

datatype 'v cell = NaN | Str string | Val 'v

text \<open>
  A table (a \<open>DataFrame\<close>) is the list of its column names and the list of its rows; a
  row gives the cell of each column.  A dictionary of keyword arguments is the list of
  its items in insertion order, with distinct keys.
\<close>

record 'v table =
  columns :: "string list"
  rows :: "(string \<Rightarrow> 'v cell) list"

type_synonym 'v kwargs = "(string \<times> 'v cell) list"

subsection \<open>The libraries\<close>

text \<open>
  What the table library and the serializer do is not written in this module, so it is a
  parameter of the model, and nothing is assumed about it:
  \<^item> \<open>to_csv\<close> renders a table as the data of a file, \<open>read_csv\<close> reads the data of a
    file as a table; either may raise, and a table need not read back as it was written
    (the text format does not keep the types of the cells);
  \<^item> \<open>scalar_eq\<close> is the comparison \<open>==\<close> of a stored scalar with a requested one, as
    the library makes it in the column's type;
  \<^item> \<open>pickle_dumps\<close> and \<open>pickle_loads\<close> serialize and deserialize a problem instance;
    either may raise;
  \<^item> \<open>empty_file\<close> is the data of a file that has just been created or truncated.
\<close>

record ('v, 'p, 'd) runtime =
  to_csv :: "'v table \<Rightarrow> error + 'd"
  read_csv :: "'d \<Rightarrow> error + 'v table"
  scalar_eq :: "'v \<Rightarrow> 'v \<Rightarrow> bool"
  pickle_dumps :: "'p \<Rightarrow> error + 'd"
  pickle_loads :: "'d \<Rightarrow> error + 'p"
  empty_file :: 'd

text \<open>
  Comparing a column with a value by \<open>==\<close>, cell by cell: a missing cell equals
  nothing, a missing value is equalled by nothing, strings are compared as strings,
  scalars by the library, and a string never equals another scalar.
\<close>

definition cell_eq :: "('v \<Rightarrow> 'v \<Rightarrow> bool) \<Rightarrow> 'v cell \<Rightarrow> 'v cell \<Rightarrow> bool" where
  "cell_eq eq c v =
     (case (c, v) of
        (Str s, Str t) \<Rightarrow> s = t
      | (Val a, Val b) \<Rightarrow> eq a b
      | _ \<Rightarrow> False)"

text \<open>\<open>pd.DataFrame(columns=cols)\<close>: no rows.\<close>

definition DataFrame :: "string list \<Rightarrow> 'v table" where
  "DataFrame cols = \<lparr>columns = cols, rows = []\<rparr>"

text \<open>\<open>pd.DataFrame.from_dict([kwargs])\<close>: one row, one column per key.\<close>

definition row_of :: "'v kwargs \<Rightarrow> string \<Rightarrow> 'v cell" where
  "row_of kwargs c = (case map_of kwargs c of None \<Rightarrow> NaN | Some v \<Rightarrow> v)"

definition from_dict :: "'v kwargs \<Rightarrow> 'v table" where
  "from_dict kwargs = \<lparr>columns = map fst kwargs, rows = [row_of kwargs]\<rparr>"

text \<open>
  \<open>pd.concat([a, b])\<close>: the rows of \<open>a\<close> followed by the rows of \<open>b\<close>, over the columns
  of \<open>a\<close> followed by the columns only \<open>b\<close> has; a row is missing in the columns its own
  table did not have.  Aligning two different lists of column names needs the names of
  each to be distinct.
\<close>

definition mask :: "string list \<Rightarrow> (string \<Rightarrow> 'v cell) \<Rightarrow> string \<Rightarrow> 'v cell" where
  "mask cols r c = (if c \<in> set cols then r c else NaN)"

definition concat_tables :: "'v table \<Rightarrow> 'v table \<Rightarrow> error + 'v table" where
  "concat_tables a b =
     (if columns a = columns b \<or> (distinct (columns a) \<and> distinct (columns b))
      then Inr \<lparr>columns = columns a @ filter (\<lambda>c. c \<notin> set (columns a)) (columns b),
                rows = map (mask (columns a)) (rows a) @ map (mask (columns b)) (rows b)\<rparr>
      else Inl InvalidIndexError)"

text \<open>
  \<open>df.loc[df[col] == val]\<close>.  When the name \<open>col\<close> labels more than one column,
  \<open>df[col]\<close> is a table and not a column, the comparison is two-dimensional, and \<open>.loc\<close>
  refuses it with a ValueError.  Otherwise the rows whose cell equals \<open>val\<close> are kept.
\<close>

definition loc_eq ::
  "('v \<Rightarrow> 'v \<Rightarrow> bool) \<Rightarrow> 'v table \<Rightarrow> string \<Rightarrow> 'v cell \<Rightarrow> error + 'v table" where
  "loc_eq eq df col val =
     (if 1 < length (filter (\<lambda>c. c = col) (columns df)) then Inl ValueError
      else Inr (df\<lparr>rows := filter (\<lambda>r. cell_eq eq (r col) val) (rows df)\<rparr>))"

text \<open>\<open>df.empty\<close>: an axis of length zero.\<close>

definition empty_table :: "'v table \<Rightarrow> bool" where
  "empty_table df = (rows df = [] \<or> columns df = [])"

subsection \<open>Files\<close>

text \<open>
  A path names a file, with its data, or nothing.  Opening a path for writing can fail
  (the directory is missing, the file may not be written): \<open>write_error\<close> gives the
  exception raised for such a path.  When it succeeds the file exists and is empty until
  data is written.
\<close>

type_synonym 'd filesystem = "string \<rightharpoonup> 'd"

text \<open>
  \<open>with open(filename, 'rb') as file: problem = pickle.load(file)\<close>, for the value
  found in the \<open>filename\<close> column.  Only a string names a file; any other value is
  refused by \<open>open\<close> (rendered as a TypeError).
\<close>

definition load_pickle ::
  "('v, 'p, 'd) runtime \<Rightarrow> 'd filesystem \<Rightarrow> 'v cell \<Rightarrow> error + 'p" where
  "load_pickle lib fs filename =
     (case filename of
        Str path \<Rightarrow>
          (case fs path of
             None \<Rightarrow> Inl FileNotFoundError
           | Some d \<Rightarrow> pickle_loads lib d)
      | _ \<Rightarrow> Inl TypeError)"

text \<open>\<open>os.path.join(a, b)\<close> on POSIX paths.\<close>

definition os_path_join :: "string \<Rightarrow> string \<Rightarrow> string" where
  "os_path_join a b =
     (if b \<noteq> [] \<and> hd b = CHR ''/'' then b
      else if a = [] \<or> last a = CHR ''/'' then a @ b
      else a @ ''/'' @ b)"

text \<open>\<open>str(n)\<close> for a natural number: its decimal digits.\<close>

function str_nat :: "nat \<Rightarrow> string" where
  "str_nat n =
     (if n < 10 then [''0123456789'' ! n]
      else str_nat (n div 10) @ [''0123456789'' ! (n mod 10)])"
  by pat_completeness auto
termination
  by (relation "measure id") auto

declare str_nat.simps [simp del]

subsection \<open>find_saved_problem\<close>

text \<open>
  \<^verbatim>\<open>
  for col, val in kwargs.items():
      if col in relevant_models.columns:
          relevant_models = relevant_models.loc[relevant_models[col] == val]
  \<close>
\<close>

fun filter_models ::
  "('v \<Rightarrow> 'v \<Rightarrow> bool) \<Rightarrow> 'v kwargs \<Rightarrow> 'v table \<Rightarrow> error + 'v table" where
  "filter_models eq [] relevant_models = Inr relevant_models"
| "filter_models eq ((col, val) # rest) relevant_models =
     (if col \<in> set (columns relevant_models) then
        (case loc_eq eq relevant_models col val of
           Inl e \<Rightarrow> Inl e
         | Inr filtered \<Rightarrow> filter_models eq rest filtered)
      else filter_models eq rest relevant_models)"

text \<open>
  \<^verbatim>\<open>
  def find_saved_problem(master_filename, kwargs):
      if os.path.exists(master_filename):
          with open(master_filename, 'r') as file:
              saved_probs = pd.read_csv(file)
      else:
          saved_probs = pd.DataFrame(columns=('filename', *kwargs.keys(),))
      relevant_models = saved_probs
      for col, val in kwargs.items(): ...
      filename = None
      if not relevant_models.empty:
          filename = relevant_models['filename'].values[0]
      return filename, saved_probs
  \<close>
  \<open>relevant_models['filename']\<close> is a KeyError when the table has no such column.
\<close>

definition find_saved_problem ::
  "('v, 'p, 'd) runtime \<Rightarrow> string \<Rightarrow> 'v kwargs \<Rightarrow> 'd filesystem \<Rightarrow>
   error + ('v cell option \<times> 'v table)" where
  "find_saved_problem lib master_filename kwargs fs =
     (case (case fs master_filename of
              Some d \<Rightarrow> read_csv lib d
            | None \<Rightarrow> Inr (DataFrame (''filename'' # map fst kwargs))) of
        Inl e \<Rightarrow> Inl e
      | Inr saved_probs \<Rightarrow>
          (case filter_models (scalar_eq lib) kwargs saved_probs of
             Inl e \<Rightarrow> Inl e
           | Inr relevant_models \<Rightarrow>
               if \<not> empty_table relevant_models then
                 (if ''filename'' \<in> set (columns relevant_models)
                  then Inr (Some (hd (rows relevant_models) ''filename''), saved_probs)
                  else Inl KeyError)
               else Inr (None, saved_probs)))"

subsection \<open>init_if_not_saved and its lock\<close>

text \<open>
  The world of a call: the files, the paths that cannot be opened for writing, and the
  lines the function has printed.  The two \<open>print\<close> statements of \<open>init_if_not_saved\<close>
  are recorded as what they show.
\<close>

datatype 'v line = Problem_saved_as "'v cell option" | Saving_the_problem

record ('v, 'd) world =
  files :: "'d filesystem"
  write_error :: "string \<rightharpoonup> error"
  printed :: "'v line list"

text \<open>\<open>open(path, 'w')\<close> and \<open>open(path, 'wb')\<close>: the file is created or truncated.\<close>

definition open_write ::
  "('v, 'p, 'd) runtime \<Rightarrow> string \<Rightarrow> ('v, 'd) world \<Rightarrow> error + ('v, 'd) world" where
  "open_write lib path w =
     (case write_error w path of
        Some e \<Rightarrow> Inl e
      | None \<Rightarrow> Inr (w\<lparr>files := (files w)(path \<mapsto> empty_file lib)\<rparr>))"

text \<open>
  The problem class: its \<open>__name__\<close> and its constructor \<open>problem_cls(**kwargs)\<close>,
  which may raise.
\<close>

record ('v, 'p) problem_class =
  class_name :: string
  construct :: "'v kwargs \<Rightarrow> error + 'p"

text \<open>
  The function as it is written, before the decorator.  It works on the world and on the
  caller's dictionary \<open>kwargs\<close>, which it changes in place
  (\<open>kwargs['filename'] = filename\<close> replaces the value of an existing key where it
  stands and appends a new key at the end).  Every statement that can raise is a branch;
  what was done before it stays done.
  \<^verbatim>\<open>
  master_filename = os.path.join(folder, f"{problem_cls.__name__}.csv")
  filename, saved_probs = find_saved_problem(master_filename, kwargs)
  print(f"Problem Saved as: {filename}")
  if not load_new and filename is not None:
      with open(filename, 'rb') as file:
          problem = pickle.load(file)
  else:
      problem = problem_cls(**kwargs)
      print("Saving the problem")
      filename = os.path.join(folder, f"{problem_cls.__name__}_{len(saved_probs)}.pkl")
      with open(filename, 'wb') as file:
          pickle.dump(problem, file)
      kwargs['filename'] = filename
      saved_probs = pd.concat([saved_probs, pd.DataFrame.from_dict([kwargs])])
      with open(master_filename, 'w') as file:
          saved_probs.to_csv(file, index=False)
  return problem
  \<close>
\<close>

text \<open>
  \<open>save_problem\<close> is the rest of the \<open>else\<close> branch once the instance is built, from
  \<open>filename = os.path.join(...)\<close> to the end; \<open>init_if_not_saved_body\<close> is the function
  up to there.
\<close>

definition save_problem ::
  "('v, 'p, 'd) runtime \<Rightarrow> ('v, 'p) problem_class \<Rightarrow> string \<Rightarrow> 'v table \<Rightarrow> 'p \<Rightarrow>
   ('v, 'd) world \<times> 'v kwargs \<Rightarrow> (('v, 'd) world \<times> 'v kwargs) \<times> (error + 'p)" where
  "save_problem lib problem_cls folder saved_probs problem s =
     (case s of (w, kwargs) \<Rightarrow>
        (let master_filename = os_path_join folder (class_name problem_cls @ ''.csv'');
             filename = os_path_join folder
                          (class_name problem_cls @ ''_''
                             @ str_nat (length (rows saved_probs)) @ ''.pkl'')
         in case open_write lib filename w of
              Inl e \<Rightarrow> ((w, kwargs), Inl e)
            | Inr w1 \<Rightarrow>
                (case pickle_dumps lib problem of
                   Inl e \<Rightarrow> ((w1, kwargs), Inl e)
                 | Inr d \<Rightarrow>
                     (let w2 = w1\<lparr>files := (files w1)(filename \<mapsto> d)\<rparr>;
                          kwargs' = AList.update ''filename'' (Str filename) kwargs
                      in case concat_tables saved_probs (from_dict kwargs') of
                           Inl e \<Rightarrow> ((w2, kwargs'), Inl e)
                         | Inr saved_probs' \<Rightarrow>
                             (case open_write lib master_filename w2 of
                                Inl e \<Rightarrow> ((w2, kwargs'), Inl e)
                              | Inr w3 \<Rightarrow>
                                  (case to_csv lib saved_probs' of
                                     Inl e \<Rightarrow> ((w3, kwargs'), Inl e)
                                   | Inr t \<Rightarrow>
                                       ((w3\<lparr>files := (files w3)(master_filename \<mapsto> t)\<rparr>,
                                         kwargs'),
                                        Inr problem)))))))"

definition init_if_not_saved_body ::
  "('v, 'p, 'd) runtime \<Rightarrow> ('v, 'p) problem_class \<Rightarrow> string \<Rightarrow> bool \<Rightarrow>
   ('v, 'd) world \<times> 'v kwargs \<Rightarrow> (('v, 'd) world \<times> 'v kwargs) \<times> (error + 'p)" where
  "init_if_not_saved_body lib problem_cls folder load_new s =
     (case s of (w, kwargs) \<Rightarrow>
        (let master_filename = os_path_join folder (class_name problem_cls @ ''.csv'')
         in case find_saved_problem lib master_filename kwargs (files w) of
              Inl e \<Rightarrow> ((w, kwargs), Inl e)
            | Inr (filename, saved_probs) \<Rightarrow>
                (let w1 = w\<lparr>printed := printed w @ [Problem_saved_as filename]\<rparr>
                 in case (if load_new then None else filename) of
                      Some f \<Rightarrow> ((w1, kwargs), load_pickle lib (files w1) f)
                    | None \<Rightarrow>
                        (case construct problem_cls kwargs of
                           Inl e \<Rightarrow> ((w1, kwargs), Inl e)
                         | Inr problem \<Rightarrow>
                             save_problem lib problem_cls folder saved_probs problem
                               (w1\<lparr>printed := printed w1 @ [Saving_the_problem]\<rparr>, kwargs)))))"

text \<open>
  \<^verbatim>\<open>
  def lock(fn):
      def wrap(*args, **kwargs):
          with open(".lock", "a") as file:
              fcntl.flock(file.fileno(), fcntl.LOCK_EX)
              res = fn(*args, **kwargs)
              # Release the lock
              fcntl.flock(file.fileno(), fcntl.LOCK_UN)
          return res
      return wrap
  \<close>
  The exclusive lock on \<open>.lock\<close> is free, held through the file this call opened, or
  held through another open file.  Opening for appending creates the file when it is
  absent and leaves it alone otherwise.  \<open>LOCK_EX\<close> waits while the lock is held; nobody
  else runs in this model, so a call that has to wait never returns (\<open>None\<close>).  The lock
  goes away by \<open>LOCK_UN\<close>, and also when the file it is held through is closed, which
  the \<open>with\<close> statement does on every way out of its block.  The wrapped function works
  on the world and on its mutable arguments; the lock is out of its reach.
\<close>

datatype flock = Unlocked | Held_by_call | Held_elsewhere

definition open_append ::
  "('v, 'p, 'd) runtime \<Rightarrow> string \<Rightarrow> ('v, 'd) world \<Rightarrow> ('v, 'd) world" where
  "open_append lib path w =
     (if files w path = None then w\<lparr>files := (files w)(path \<mapsto> empty_file lib)\<rparr> else w)"

definition flock_ex :: "flock \<Rightarrow> flock option" where
  "flock_ex fl = (if fl = Unlocked then Some Held_by_call else None)"

definition flock_un :: "flock \<Rightarrow> flock" where
  "flock_un fl = (if fl = Held_by_call then Unlocked else fl)"

definition close_file :: "flock \<Rightarrow> flock" where
  "close_file fl = (if fl = Held_by_call then Unlocked else fl)"

definition lock ::
  "('v, 'p, 'd) runtime \<Rightarrow>
   (('v, 'd) world \<times> 'm \<Rightarrow> (('v, 'd) world \<times> 'm) \<times> (error + 'a)) \<Rightarrow>
   flock \<times> ('v, 'd) world \<times> 'm \<Rightarrow> ((flock \<times> ('v, 'd) world \<times> 'm) \<times> (error + 'a)) option" where
  "lock lib fn s =
     (case s of (fl, w, args) \<Rightarrow>
        (let w1 = open_append lib ''.lock'' w
         in case flock_ex fl of
              None \<Rightarrow> None
            | Some fl1 \<Rightarrow>
                (case fn (w1, args) of
                   ((w2, args'), Inr res) \<Rightarrow> Some ((close_file (flock_un fl1), w2, args'), Inr res)
                 | ((w2, args'), Inl e) \<Rightarrow> Some ((close_file fl1, w2, args'), Inl e))))"

text \<open>\<open>@lock def init_if_not_saved(problem_cls, kwargs, folder='models', load_new=True)\<close>\<close>

definition init_if_not_saved ::
  "('v, 'p, 'd) runtime \<Rightarrow> ('v, 'p) problem_class \<Rightarrow> 'v kwargs \<Rightarrow> string \<Rightarrow> bool \<Rightarrow>
   flock \<times> ('v, 'd) world \<Rightarrow> ((flock \<times> ('v, 'd) world \<times> 'v kwargs) \<times> (error + 'p)) option" where
  "init_if_not_saved lib problem_cls kwargs folder load_new s =
     lock lib (init_if_not_saved_body lib problem_cls folder load_new) (fst s, snd s, kwargs)"

subsection \<open>Notions used to state the properties of the cache\<close>

text \<open>
  The filter of a lookup, as the specification words it: a row is kept when it equals
  the requested value in every requested column that the table has; requested keys that
  are not columns do not count.
\<close>

definition row_matches ::
  "('v \<Rightarrow> 'v \<Rightarrow> bool) \<Rightarrow> string list \<Rightarrow> 'v kwargs \<Rightarrow> (string \<Rightarrow> 'v cell) \<Rightarrow> bool" where
  "row_matches eq cols kwargs r =
     list_all (\<lambda>(k, v). if k \<in> set cols then cell_eq eq (r k) v else True) kwargs"

text \<open>A requested key that labels more than one column of the table.\<close>

definition ambiguous_key :: "string list \<Rightarrow> 'v kwargs \<Rightarrow> bool" where
  "ambiguous_key cols kwargs =
     list_ex (\<lambda>(k, v). 1 < length (filter (\<lambda>c. c = k) cols)) kwargs"


text \<open>
  The two paths of the file layout: the index \<open><folder>/<Class>.csv\<close> and the instance
  \<open><folder>/<Class>_<N>.pkl\<close>.
\<close>

definition master_path :: "string \<Rightarrow> ('v, 'p) problem_class \<Rightarrow> string" where
  "master_path folder problem_cls = os_path_join folder (class_name problem_cls @ ''.csv'')"


subsection \<open>Libraries for the examples\<close>

text \<open>
  A library whose file formats lose nothing: a table reads back as it was written and an
  instance as it was dumped.  It is the most favourable library there can be; the
  examples below are written with it, with a comparison of their own.
\<close>

datatype ('v, 'p) data = Table "'v table" | Pickle 'p | No_data

definition lossless :: "('v \<Rightarrow> 'v \<Rightarrow> bool) \<Rightarrow> ('v, 'p, ('v, 'p) data) runtime" where
  "lossless eq =
     \<lparr>to_csv = (\<lambda>t. Inr (Table t)),
      read_csv = (\<lambda>d. case d of Table t \<Rightarrow> Inr t | _ \<Rightarrow> Inl ParserError),
      scalar_eq = eq,
      pickle_dumps = (\<lambda>p. Inr (Pickle p)),
      pickle_loads = (\<lambda>d. case d of Pickle p \<Rightarrow> Inr p | _ \<Rightarrow> Inl UnpicklingError),
      empty_file = No_data\<rparr>"

text \<open>
  Numbers as Python and the array library have them: integers, and doubles given by
  their value.  \<open>double_of_int\<close> is the double nearest to an integer (53 significant
  bits, ties to the even significand; integers beyond the range of doubles are outside
  the model).  \<open>number_eq\<close> is \<open>==\<close> between a stored and a requested number: when one of
  the two is a double, the other is compared as a double.
\<close>

function bit_length :: "nat \<Rightarrow> nat" where
  "bit_length n = (if n = 0 then 0 else Suc (bit_length (n div 2)))"
  by pat_completeness auto
termination
  by (relation "measure id") auto

declare bit_length.simps [simp del]

definition double_of_int :: "int \<Rightarrow> int" where
  "double_of_int i =
     (let n = nat \<bar>i\<bar>;
          k = bit_length n - 53;
          q = n div 2 ^ k;
          r = n mod 2 ^ k;
          q' = (if 2 ^ k < 2 * r \<or> (2 * r = 2 ^ k \<and> odd q) then q + 1 else q)
      in sgn i * int (q' * 2 ^ k))"








section \<open>Properties of trim_left\<close>

lemma getitem_one:
  "shape t = 1 # ds \<Longrightarrow> getitem t 0 = Inr \<lparr>shape = ds, entry = (\<lambda>ix. entry t (0 # ix))\<rparr>"
  by (simp add: getitem_def)

lemma trim_left_Nil: "shape t = [] \<Longrightarrow> trim_left t = Inl IndexError"
  by (subst trim_left.simps) simp

lemma trim_left_one:
  "shape t = 1 # ds \<Longrightarrow> trim_left t = trim_left \<lparr>shape = ds, entry = (\<lambda>ix. entry t (0 # ix))\<rparr>"
  by (subst trim_left.simps) (simp add: getitem_one)

lemma trim_left_other:
  "shape t = d # ds \<Longrightarrow> d \<noteq> 1 \<Longrightarrow> trim_left t = Inr t"
  by (subst trim_left.simps) simp

lemma trim_left_shape_induct:
  "shape t = sh \<Longrightarrow>
     (if list_all (\<lambda>d. d = 1) sh then trim_left t = Inl IndexError
      else trim_left t =
             Inr \<lparr>shape = dropWhile (\<lambda>d. d = 1) sh,
                  entry = (\<lambda>ix. entry t (replicate (length (takeWhile (\<lambda>d. d = 1) sh)) 0 @ ix))\<rparr>)"
proof (induction sh arbitrary: t)
  case Nil
  then show ?case by (simp add: trim_left_Nil)
next
  case (Cons d ds)
  show ?case
  proof (cases "d = 1")
    case True
    let ?t' = "\<lparr>shape = ds, entry = (\<lambda>ix. entry t (0 # ix))\<rparr>"
    have step: "trim_left t = trim_left ?t'"
      using Cons.prems True by (simp add: trim_left_one)
    have "shape ?t' = ds" by simp
    from Cons.IH [OF this] show ?thesis
      using True step by (simp split: if_splits)
  next
    case False
    then have "trim_left t = Inr t"
      using Cons.prems by (simp add: trim_left_other)
    then show ?thesis using False Cons.prems by simp
  qed
qed

text \<open>
  C10.  A tensor all of whose dimensions have size 1 (the rank-zero tensor included, and
  the shapes (1,), (1,1), (1,1,1)) makes \<open>trim_left\<close> raise IndexError: the loop strips
  every dimension and then reads \<open>shape[0]\<close> of a rank-zero tensor.  In every other case
  \<open>trim_left\<close> returns, the result is the input with its leading size-1 dimensions
  removed, and the first dimension of the result has a size different from 1.
\<close>

theorem trim_left_raises_iff_all_ones:
  "(if list_all (\<lambda>d. d = 1) (shape t) then trim_left t = Inl IndexError
    else (\<exists>r. trim_left t = Inr r
            \<and> shape r = dropWhile (\<lambda>d. d = 1) (shape t)
            \<and> shape r \<noteq> [] \<and> hd (shape r) \<noteq> 1
            \<and> (\<forall>ix. entry r ix
                   = entry t (replicate (length (takeWhile (\<lambda>d. d = 1) (shape t))) 0 @ ix))))"
proof (cases "list_all (\<lambda>d. d = 1) (shape t)")
  case True
  then show ?thesis
    using trim_left_shape_induct [of t "shape t"] by simp
next
  case False
  then have ne: "dropWhile (\<lambda>d. d = 1) (shape t) \<noteq> []"
    by (simp add: list_all_iff)
  then have "hd (dropWhile (\<lambda>d. d = 1) (shape t)) \<noteq> 1"
    using hd_dropWhile [of "\<lambda>d. d = 1" "shape t"] by blast
  with False ne show ?thesis
    using trim_left_shape_induct [of t "shape t"] by simp
qed

section \<open>Properties of gather_incomplete_left\<close>

lemma set_indices: "set (indices sh) = {ix. list_all2 (<) ix sh}"
proof (induction sh)
  case Nil
  then show ?case by auto
next
  case (Cons d ds)
  show ?case
  proof (intro set_eqI iffI)
    fix ix assume "ix \<in> set (indices (d # ds))"
    then show "ix \<in> {ix. list_all2 (<) ix (d # ds)}"
      using Cons.IH by auto
  next
    fix ix assume "ix \<in> {ix. list_all2 (<) ix (d # ds)}"
    then obtain i r where "ix = i # r" "i < d" "list_all2 (<) r ds"
      by (auto simp: list_all2_Cons2)
    then show "ix \<in> set (indices (d # ds))"
      using Cons.IH by auto
  qed
qed

lemma list_all2_less3:
  "list_all2 (<) ix [a, b, c] = (\<exists>i j k. ix = [i, j, k] \<and> i < a \<and> j < b \<and> k < c)"
  by (auto simp: list_all2_Cons2)

lemma gather_incomplete_left_4_5_6:
  assumes v: "shape v = [4,5,6]" and I: "shape I = [4]"
  shows "(if list_all (\<lambda>i. 0 \<le> entry I [i] \<and> entry I [i] < 5) [0..<4]
          then \<exists>r. gather_incomplete_left v I = Inr r \<and> shape r = [4,6]
                 \<and> (\<forall>i<4. \<forall>k<6. entry r [i,k] = entry v [i, nat (entry I [i]), k])
          else gather_incomplete_left v I = Inl RuntimeError)"
proof -
  define idx :: "int tensor" where
    "idx = \<lparr>shape = [4,1,6],
            entry = (\<lambda>ix. entry I (take 1 (map2 (\<lambda>d i. if d = 1 then 0 else i) [4,1,1::nat] ix)))\<rparr>"
  have e: "expand (replicate (ndim I + 1) (- 1) @ map int (drop (ndim I + 1) (shape v)))
             (index_newaxes (ndim v - ndim I) I) = Inr idx"
    using I v by (simp add: idx_def expand_def index_newaxes_def ndim_def expand_ok_def)
  have sh: "shape idx = [4, 1, 6]"
    by (simp add: idx_def)
  have ent: "entry idx [i, j, k] = entry I [i]" for i j k
    by (simp add: idx_def)
  have nI: "ndim I = 1" and nv: "ndim v = 3" and nidx: "ndim idx = 3"
    using I v sh by (simp_all add: ndim_def)
  have bad: "list_ex (\<lambda>ix. entry idx ix < 0 \<or> int (shape v ! 1) \<le> entry idx ix) (indices (shape idx))
        = (\<not> list_all (\<lambda>i. 0 \<le> entry I [i] \<and> entry I [i] < 5) [0..<4])"
    (is "?L = ?R")
  proof
    assume ?L
    then obtain ix where ix: "list_all2 (<) ix [4, 1, 6::nat]"
      and b: "entry idx ix < 0 \<or> int (shape v ! 1) \<le> entry idx ix"
      unfolding list_ex_iff set_indices sh by auto
    from ix obtain i j k where "ix = [i, j, k]" "i < 4"
      by (auto simp: list_all2_less3)
    with b v have "i < 4 \<and> (entry I [i] < 0 \<or> 5 \<le> entry I [i])"
      by (simp add: ent)
    then show ?R
      unfolding list_all_iff by (intro notI) force
  next
    assume ?R
    then obtain i where i: "i < 4" and b: "entry I [i] < 0 \<or> 5 \<le> entry I [i]"
      by (auto simp: list_all_iff)
    have "list_all2 (<) [i, 0, 0] [4, 1, 6::nat]"
      using i by simp
    moreover have "entry idx [i, 0, 0] < 0 \<or> int (shape v ! 1) \<le> entry idx [i, 0, 0]"
      using b v by (simp add: ent)
    ultimately show ?L
      unfolding list_ex_iff set_indices sh by (intro bexI [of _ "[i, 0, 0]"]) simp_all
  qed
  have dims: "\<not> list_ex (\<lambda>d. d \<noteq> 1 \<and> shape v ! d < shape idx ! d) [0..<3]"
    using v sh by (simp add: list_ex_iff numeral_3_eq_3 less_Suc_eq)
  show ?thesis
  proof (cases "list_all (\<lambda>i. 0 \<le> entry I [i] \<and> entry I [i] < 5) [0..<4]")
    case True
    define g where "g = \<lparr>shape = shape idx, entry = (\<lambda>ix. entry v (ix[1 := nat (entry idx ix)]))\<rparr>"
    have g: "gather (ndim I) idx v = Inr g"
      unfolding gather_def nI nv nidx using True bad dims by (simp add: g_def)
    have "shape g = [4, 1, 6]" and "ndim g = 3"
      and "entry g [i, 0, k] = entry v [i, nat (entry I [i]), k]" for i k
      by (simp_all add: g_def sh ent ndim_def)
    moreover have "gather_incomplete_left v I = squeeze_dim (ndim I) g"
      unfolding gather_incomplete_left_def by (simp only: e g sum.case)
    ultimately show ?thesis
      using True by (simp add: squeeze_dim_def nI)
  next
    case False
    have g: "gather (ndim I) idx v = Inl RuntimeError"
      unfolding gather_def nI nv nidx using False bad dims by simp
    show ?thesis
      using False unfolding gather_incomplete_left_def by (simp only: e g sum.case if_False)
  qed
qed


text \<open>
  C6 (as amended).  For a value tensor of shape (4,5,6) and an index tensor of shape (4,):
  when every index entry lies in [0,5), \<open>gather_incomplete_left\<close> returns a tensor of
  shape (4,6) with \<open>result[i,k] = value[i, index[i], k]\<close> for all \<open>i < 4\<close> and
  \<open>k < 6\<close>: the index selects along the second dimension, which is the one dropped.
  When some entry lies outside [0,5) the call raises RuntimeError.
\<close>

theorem gather_incomplete_left_selects_second_axis:
  assumes "shape v = [4, 5, 6]" and "shape I = [4]"
  shows "(if list_all (\<lambda>i. 0 \<le> entry I [i] \<and> entry I [i] < 5) [0..<4]
          then \<exists>r. gather_incomplete_left v I = Inr r \<and> shape r = [4, 6]
                 \<and> (\<forall>i<4. \<forall>k<6. entry r [i, k] = entry v [i, nat (entry I [i]), k])
          else gather_incomplete_left v I = Inl RuntimeError)"
  using assms by (rule gather_incomplete_left_4_5_6)

theorem gather_incomplete_left_selects_second_axis_witness:
  "shape \<lparr>shape = [4, 5, 6], entry = (\<lambda>ix. int (100 * ix ! 0 + 10 * ix ! 1 + ix ! 2))\<rparr> = [4, 5, 6]
   \<and> shape \<lparr>shape = [4], entry = (\<lambda>ix. int (ix ! 0))\<rparr> = [4]
   \<and> (\<exists>r. gather_incomplete_left
              \<lparr>shape = [4, 5, 6], entry = (\<lambda>ix. int (100 * ix ! 0 + 10 * ix ! 1 + ix ! 2))\<rparr>
              \<lparr>shape = [4], entry = (\<lambda>ix. int (ix ! 0))\<rparr> = Inr r
          \<and> shape r = [4, 6]
          \<and> entry r [2, 3] = 223)"
proof -
  let ?v = "\<lparr>shape = [4, 5, 6], entry = (\<lambda>ix. int (100 * ix ! 0 + 10 * ix ! 1 + ix ! 2))\<rparr>"
  let ?I = "\<lparr>shape = [4::nat], entry = (\<lambda>ix. int (ix ! 0))\<rparr>"
  have ok: "list_all (\<lambda>i. 0 \<le> entry ?I [i] \<and> entry ?I [i] < 5) [0..<4]"
    by (simp add: list_all_iff)
  have "shape ?v = [4, 5, 6]" and "shape ?I = [4]"
    by simp_all
  from gather_incomplete_left_selects_second_axis [OF this]
  obtain r where r: "gather_incomplete_left ?v ?I = Inr r" "shape r = [4, 6]"
    and e: "\<forall>i<4. \<forall>k<6. entry r [i, k] = entry ?v [i, nat (entry ?I [i]), k]"
    using ok by (auto simp only: if_True)
  from e have "entry r [2, 3] = entry ?v [2, nat (entry ?I [2]), 3]"
    by simp
  then have "entry r [2, 3] = 223"
    by simp
  with r show ?thesis
    by simp
qed

text \<open>
  The claim as stated fails twice on the same value tensor: with the index \<open>(5,5,5,5)\<close>,
  whose entries lie in [0,6), the call raises; with the index \<open>(0,1,2,3)\<close> the result
  has shape (4,6), not (4,5).
\<close>

theorem gather_incomplete_left_counterexample:
  "gather_incomplete_left
     \<lparr>shape = [4, 5, 6], entry = (\<lambda>ix. int (100 * ix ! 0 + 10 * ix ! 1 + ix ! 2))\<rparr>
     \<lparr>shape = [4], entry = (\<lambda>ix. 5)\<rparr> = Inl RuntimeError
   \<and> map_sum id shape
        (gather_incomplete_left
           \<lparr>shape = [4, 5, 6], entry = (\<lambda>ix. int (100 * ix ! 0 + 10 * ix ! 1 + ix ! 2))\<rparr>
           \<lparr>shape = [4], entry = (\<lambda>ix. int (ix ! 0))\<rparr>) = Inr [4, 6]"
proof -
  let ?v = "\<lparr>shape = [4, 5, 6], entry = (\<lambda>ix. int (100 * ix ! 0 + 10 * ix ! 1 + ix ! 2))\<rparr>"
  let ?I5 = "\<lparr>shape = [4::nat], entry = (\<lambda>ix. 5::int)\<rparr>"
  let ?I = "\<lparr>shape = [4::nat], entry = (\<lambda>ix. int (ix ! 0))\<rparr>"
  have "\<not> list_all (\<lambda>i. 0 \<le> entry ?I5 [i] \<and> entry ?I5 [i] < 5) [0..<4]"
    by (auto simp: list_all_iff intro!: exI [of _ 0])
  then have a: "gather_incomplete_left ?v ?I5 = Inl RuntimeError"
    using gather_incomplete_left_4_5_6 [of ?v ?I5] by (simp only: if_False tensor.simps simp_thms)
  have "list_all (\<lambda>i. 0 \<le> entry ?I [i] \<and> entry ?I [i] < 5) [0..<4]"
    by (simp add: list_all_iff)
  then obtain r where "gather_incomplete_left ?v ?I = Inr r" "shape r = [4, 6]"
    using gather_incomplete_left_4_5_6 [of ?v ?I] by (auto simp only: if_True tensor.simps simp_thms)
  then have b: "map_sum id shape (gather_incomplete_left ?v ?I) = Inr [4, 6]"
    by simp
  from a b show ?thesis by (intro conjI)
qed

section \<open>Properties of solve_lineqn\<close>

lemma broadcast_rev_same: "broadcast_rev xs xs = Some xs"
  by (induction xs) simp_all

lemma broadcast_shape_same: "broadcast_shape s s = Some s"
  by (simp add: broadcast_shape_def broadcast_rev_same)

lemma project_valid:
  "list_all2 (<) ix sh \<Longrightarrow> project sh ix = ix"
proof -
  assume a: "list_all2 (<) ix sh"
  then have len: "length ix = length sh"
    by (rule list_all2_lengthD)
  from a have "map2 (\<lambda>d i. if d = 1 then 0 else i) sh ix = ix"
    by (induction ix sh rule: list_all2_induct) auto
  with len show ?thesis
    by (simp add: project_def)
qed

lemma project_indices: "ix \<in> set (indices sh) \<Longrightarrow> project sh ix = ix"
  by (simp add: set_indices project_valid)

lemma tensor_add_same_shape:
  "shape a = shape b \<Longrightarrow>
     tensor_map2 f a b
       = Inr \<lparr>shape = shape b,
              entry = (\<lambda>ix. f (entry a (project (shape b) ix)) (entry b (project (shape b) ix)))\<rparr>"
  by (simp add: tensor_map2_def broadcast_shape_same)

lemma solve_lineqn_retry:
  assumes fail: "linalg_solve A b = Inl RuntimeError" and sq: "shape A = [n, n]"
  shows "\<exists>A'. solve_lineqn linalg_solve A b eps out
                = (out @ [''WARNING: The matrix was singular''], linalg_solve A' b)
             \<and> shape A' = [n, n]
             \<and> (\<forall>i<n. \<forall>j<n. entry A' [i, j] = entry A [i, j] + (if i = j then eps else 0))"
proof -
  define A' where
    "A' = \<lparr>shape = [n, n],
           entry = (\<lambda>ix. entry A (project [n, n] ix)
                          + entry (scalar_mul eps (eye n)) (project [n, n] ix))\<rparr>"
  have add: "tensor_add A (scalar_mul eps (eye n)) = Inr A'"
    using sq tensor_add_same_shape [of A "scalar_mul eps (eye n)" "(+)"]
    by (simp add: tensor_add_def A'_def scalar_mul_def eye_def)
  have last: "shape_last A = Inr n"
    using sq by (simp add: shape_last_def)
  have run: "solve_lineqn linalg_solve A b eps out
               = (out @ [''WARNING: The matrix was singular''], linalg_solve A' b)"
    by (simp add: solve_lineqn_def fail last add)
  have ent: "entry A' [i, j] = entry A [i, j] + (if i = j then eps else 0)"
    if "i < n" "j < n" for i j
  proof -
    have "project [n, n] [i, j] = [i, j]"
      using that by (intro project_valid) simp
    then show ?thesis
      by (simp add: A'_def scalar_mul_def eye_def)
  qed
  have "shape A' = [n, n]"
    by (simp add: A'_def)
  with run ent show ?thesis
    by blast
qed

text \<open>
  C7.  When the solver raises a RuntimeError on a square matrix \<open>A\<close>, \<open>solve_lineqn\<close>
  does not raise on that failure: it prints the warning and its result is whatever the
  solver gives for \<open>A + eps * I\<close> and the same right-hand side, be it a solution or
  an exception, which then reaches the caller (the retry is outside the \<open>try\<close>).
\<close>

theorem solve_lineqn_retries_once:
  assumes "linalg_solve A b = Inl RuntimeError" and "shape A = [n, n]"
  shows "\<exists>A'. solve_lineqn linalg_solve A b eps out
                = (out @ [''WARNING: The matrix was singular''], linalg_solve A' b)
             \<and> shape A' = [n, n]
             \<and> (\<forall>i<n. \<forall>j<n. entry A' [i, j] = entry A [i, j] + (if i = j then eps else 0))"
  using assms by (rule solve_lineqn_retry)

theorem solve_lineqn_retries_once_witness:
  "(\<lambda>A b. if entry A [0, 0] = 0 then Inl RuntimeError else Inr b)
       \<lparr>shape = [2, 2], entry = (\<lambda>ix. 0)\<rparr> \<lparr>shape = [2], entry = (\<lambda>ix. 1)\<rparr> = Inl RuntimeError
   \<and> shape \<lparr>shape = [2, 2], entry = (\<lambda>ix. 0::real)\<rparr> = [2, 2]
   \<and> solve_lineqn (\<lambda>A b. if entry A [0, 0] = 0 then Inl RuntimeError else Inr b)
        \<lparr>shape = [2, 2], entry = (\<lambda>ix. 0)\<rparr> \<lparr>shape = [2], entry = (\<lambda>ix. 1)\<rparr> (1 / 100000) []
      = ([''WARNING: The matrix was singular''], Inr \<lparr>shape = [2], entry = (\<lambda>ix. 1)\<rparr>)"
proof -
  let ?solve = "\<lambda>(A::real tensor) (b::real tensor). if entry A [0, 0] = 0 then Inl RuntimeError else Inr b"
  let ?A = "\<lparr>shape = [2, 2], entry = (\<lambda>ix. 0::real)\<rparr>"
  let ?b = "\<lparr>shape = [2], entry = (\<lambda>ix. 1::real)\<rparr>"
  have h1: "?solve ?A ?b = Inl RuntimeError" by simp
  have h2: "shape ?A = [2, 2]" by simp
  from solve_lineqn_retries_once [of ?solve ?A ?b 2 "1 / 100000" "[]", OF h1 h2]
  obtain A' where r: "solve_lineqn ?solve ?A ?b (1 / 100000) []
                        = ([] @ [''WARNING: The matrix was singular''], ?solve A' ?b)"
    and e: "\<forall>i<2. \<forall>j<2. entry A' [i, j] = entry ?A [i, j] + (if i = j then 1 / 100000 else 0)"
    by blast
  from e have "entry A' [0, 0] = 1 / 100000"
    by simp
  then have "?solve A' ?b = Inr ?b"
    by simp
  with r h1 h2 show ?thesis
    by simp
qed

section \<open>Properties of print_metrics\<close>

lemma elems_zeros_like: "elems (zeros_like t) = replicate (length (elems t)) 0"
  by (simp add: elems_def zeros_like_def map_replicate_const)

lemma mean_zeros_like: "mean (zeros_like t) = (if elems t = [] then None else Some 0)"
  by (simp add: mean_def elems_zeros_like Let_def sum_list_replicate)

lemma L1Loss_same_shape:
  assumes "shape a = shape b"
  shows "L1Loss a b
           = Inr (if elems a = [] then None
                  else Some (sum_list (map2 (\<lambda>x y. \<bar>x - y\<bar>) (elems a) (elems b))
                             / real (length (elems a))))"
proof -
  define d where
    "d = \<lparr>shape = shape a,
          entry = (\<lambda>ix. \<bar>entry a (project (shape a) ix) - entry b (project (shape b) ix)\<bar>)\<rparr>"
  have m: "tensor_map2 (\<lambda>x y. \<bar>x - y\<bar>) a b = Inr d"
    using tensor_add_same_shape [of a b "\<lambda>x y. \<bar>x - y\<bar>"] assms
    by (simp add: d_def)
  have "map (entry d) (indices (shape a))
          = map (\<lambda>ix. \<bar>entry a ix - entry b ix\<bar>) (indices (shape a))"
    by (rule map_cong) (simp_all add: d_def project_indices assms [symmetric])
  then have e: "elems d = map2 (\<lambda>x y. \<bar>x - y\<bar>) (elems a) (elems b)"
    by (simp add: elems_def d_def assms [symmetric] zip_map_map map2_map_map zip_same_conv_map
                  comp_def)
  have s: "sum_list (elems d) = sum_list (map2 (\<lambda>x y. \<bar>x - y\<bar>) (elems a) (elems b))"
    by (simp only: e)
  have n: "(elems d = []) = (elems a = [])" and l: "length (elems d) = length (elems a)"
    by (simp_all add: elems_def d_def)
  show ?thesis
    by (simp add: L1Loss_def m mean_def Let_def s n l)
qed

lemma L1Loss_zeros_neg:
  "L1Loss (zeros_like t) (neg t)
     = Inr (if elems t = [] then None
            else Some (sum_list (map abs (elems t)) / real (length (elems t))))"
proof -
  have "map2 (\<lambda>x y. \<bar>x - y\<bar>) (elems (zeros_like t)) (elems (neg t)) = map abs (elems t)"
    by (simp add: elems_def zeros_like_def neg_def zip_map_map zip_same_conv_map comp_def)
  then show ?thesis
    using L1Loss_same_shape [of "zeros_like t" "neg t"]
    by (simp add: zeros_like_def neg_def elems_def)
qed

lemma partition_losses_test:
  "partition_losses model loss_fn (Xs, Ys, Ys_aux, ''test'') objectives
     = Inr (zeros_like objectives)"
  by (simp add: partition_losses_def)

lemma partition_metrics_test:
  "partition_metrics model problem loss_fn prefix (Xs, Ys, Ys_aux, ''test'')
     = (let objectives = get_objective problem Ys
                           (get_decision problem (squeeze (model Xs)) Ys_aux False) Ys_aux
        in Inr \<lparr>objective = mean objectives,
                loss = (if elems objectives = [] then None else Some 0),
                mae = (if elems objectives = [] then None
                       else Some (sum_list (map abs (elems objectives))
                                  / real (length (elems objectives))))\<rparr>)"
  by (simp add: partition_metrics_def partition_losses_test Let_def mean_zeros_like
                L1Loss_zeros_neg)

lemma sum_abs_nonneg: "list_all (\<lambda>x. 0 \<le> x) xs \<Longrightarrow> sum_list (map abs xs) = sum_list (xs::real list)"
  by (induction xs) simp_all

lemma print_metrics_loop_append:
  "print_metrics_loop model problem loss_fn prefix (pre @ rest) out metrics
     = (case print_metrics_loop model problem loss_fn prefix pre out metrics of
          (out', Inl e) \<Rightarrow> (out', Inl e)
        | (out', Inr metrics') \<Rightarrow>
            print_metrics_loop model problem loss_fn prefix rest out' metrics')"
  by (induction pre arbitrary: out metrics) (simp_all split: sum.splits)

lemma print_metrics_loop_out:
  "print_metrics_loop model problem loss_fn prefix ds out metrics = (out', r) \<Longrightarrow>
     take (length out) out' = out"
proof (induction ds arbitrary: out metrics)
  case Nil
  then show ?case by simp
next
  case (Cons d ds)
  show ?case
  proof (cases "partition_metrics model problem loss_fn prefix d")
    case (Inl e)
    then show ?thesis using Cons.prems by simp
  next
    case (Inr m)
    with Cons.prems have
      "print_metrics_loop model problem loss_fn prefix ds
         (out @ [(prefix, snd (snd (snd d)), m)]) (metrics(snd (snd (snd d)) \<mapsto> m)) = (out', r)"
      by simp
    from Cons.IH [OF this]
    have "take (Suc (length out)) out' = out @ [(prefix, snd (snd (snd d)), m)]"
      by simp
    then have "take (length out) (take (Suc (length out)) out') = out"
      by simp
    then show ?thesis
      by (simp add: min_def)
  qed
qed

lemma print_metrics_loop_keeps:
  "print_metrics_loop model problem loss_fn prefix ds out metrics = (out', Inr metrics') \<Longrightarrow>
     k \<notin> set (map (\<lambda>d. snd (snd (snd d))) ds) \<Longrightarrow> metrics' k = metrics k"
proof (induction ds arbitrary: out metrics)
  case Nil
  then show ?case by simp
next
  case (Cons d ds)
  show ?case
  proof (cases "partition_metrics model problem loss_fn prefix d")
    case (Inl e)
    then show ?thesis using Cons.prems by simp
  next
    case (Inr m)
    with Cons.prems have
      "print_metrics_loop model problem loss_fn prefix ds
         (out @ [(prefix, snd (snd (snd d)), m)]) (metrics(snd (snd (snd d)) \<mapsto> m))
       = (out', Inr metrics')"
      by simp
    from Cons.IH [OF this] Cons.prems(2) show ?thesis
      by simp
  qed
qed

lemma print_metrics_at_test:
  assumes pre: "print_metrics pre model problem loss_type loss_fn prefix out
                  = (out1, Inr metrics1)"
  shows "(let objectives = get_objective problem Ys
                       (get_decision problem (squeeze (model Xs)) Ys_aux False) Ys_aux;
        m = \<lparr>objective = mean objectives,
             loss = (if elems objectives = [] then None else Some 0),
             mae = (if elems objectives = [] then None
                    else Some (sum_list (map abs (elems objectives))
                               / real (length (elems objectives))))\<rparr>
    in print_metrics (pre @ (Xs, Ys, Ys_aux, ''test'') # post) model problem loss_type
           loss_fn prefix out
         = print_metrics_loop model problem loss_fn prefix post
             (out1 @ [(prefix, ''test'', m)]) (metrics1(''test'' \<mapsto> m))
       \<and> (\<forall>out' metrics'.
            print_metrics (pre @ (Xs, Ys, Ys_aux, ''test'') # post) model problem loss_type
                loss_fn prefix out = (out', Inr metrics')
            \<and> ''test'' \<notin> set (map (\<lambda>d. snd (snd (snd d))) post)
            \<longrightarrow> metrics' ''test'' = Some m
                \<and> take (Suc (length out1)) out' = out1 @ [(prefix, ''test'', m)]))"
proof -
  define objectives where
    "objectives = get_objective problem Ys
                    (get_decision problem (squeeze (model Xs)) Ys_aux False) Ys_aux"
  define m where
    "m = \<lparr>objective = mean objectives,
          loss = (if elems objectives = [] then None else Some 0),
          mae = (if elems objectives = [] then None
                 else Some (sum_list (map abs (elems objectives))
                            / real (length (elems objectives))))\<rparr>"
  have pm: "partition_metrics model problem loss_fn prefix (Xs, Ys, Ys_aux, ''test'') = Inr m"
    by (simp add: partition_metrics_test Let_def m_def objectives_def)
  have step: "print_metrics (pre @ (Xs, Ys, Ys_aux, ''test'') # post) model problem loss_type
                loss_fn prefix out
              = print_metrics_loop model problem loss_fn prefix post
                  (out1 @ [(prefix, ''test'', m)]) (metrics1(''test'' \<mapsto> m))"
    using pre by (simp add: print_metrics_def print_metrics_loop_append pm)
  have "metrics' ''test'' = Some m
          \<and> take (Suc (length out1)) out' = out1 @ [(prefix, ''test'', m)]"
    if r: "print_metrics (pre @ (Xs, Ys, Ys_aux, ''test'') # post) model problem loss_type
             loss_fn prefix out = (out', Inr metrics')"
      and n: "''test'' \<notin> set (map (\<lambda>d. snd (snd (snd d))) post)"
    for out' metrics'
  proof -
    from r step have l: "print_metrics_loop model problem loss_fn prefix post
                        (out1 @ [(prefix, ''test'', m)]) (metrics1(''test'' \<mapsto> m))
                      = (out', Inr metrics')"
      by simp
    from print_metrics_loop_keeps [OF l n] print_metrics_loop_out [OF l]
    show ?thesis by simp
  qed
  with step show ?thesis
    unfolding Let_def objectives_def [symmetric] m_def [symmetric] by blast
qed

text \<open>
  C5 (as amended).  Let the datasets before a dataset whose partition name is \<open>test\<close>
  be reported without an exception.  Then, whatever the predictor returns, the losses
  of the \<open>test\<close> dataset are the all-zeros tensor of the shape of its objectives;
  \<open>print_metrics\<close> prints next the line of that dataset and records for \<open>test\<close> the
  mean of the objectives, as \<open>loss\<close> the mean of those zeros, which is 0, and as \<open>mae\<close>
  the L1 distance between the zeros and the negated objectives, which is the mean of the
  absolute values of the objectives, provided the objectives tensor has an entry (all
  three numbers are \<open>nan\<close> when it has none); it then goes on with the remaining
  datasets, and when it returns and no later dataset is named \<open>test\<close>, these are the
  numbers it returns for \<open>test\<close>.  The \<open>mae\<close> equals the mean objective when no
  objective is negative.
\<close>

theorem print_metrics_test_partition:
  assumes "print_metrics pre model problem loss_type loss_fn prefix out
             = (out1, Inr metrics1)"
  shows "(let objectives = get_objective problem Ys
                       (get_decision problem (squeeze (model Xs)) Ys_aux False) Ys_aux;
        losses = zeros_like objectives;
        m = \<lparr>objective = mean objectives,
             loss = (if elems objectives = [] then None else Some 0),
             mae = (if elems objectives = [] then None
                    else Some (sum_list (map abs (elems objectives))
                               / real (length (elems objectives))))\<rparr>
    in partition_losses model loss_fn (Xs, Ys, Ys_aux, ''test'') objectives = Inr losses
       \<and> shape losses = shape objectives \<and> (\<forall>ix. entry losses ix = 0)
       \<and> loss m = mean losses
       \<and> L1Loss losses (neg objectives) = Inr (mae m)
       \<and> print_metrics (pre @ (Xs, Ys, Ys_aux, ''test'') # post) model problem loss_type
             loss_fn prefix out
           = print_metrics_loop model problem loss_fn prefix post
               (out1 @ [(prefix, ''test'', m)]) (metrics1(''test'' \<mapsto> m))
       \<and> (\<forall>out' metrics'.
            print_metrics (pre @ (Xs, Ys, Ys_aux, ''test'') # post) model problem loss_type
                loss_fn prefix out = (out', Inr metrics')
            \<and> ''test'' \<notin> set (map (\<lambda>d. snd (snd (snd d))) post)
            \<longrightarrow> metrics' ''test'' = Some m
                \<and> take (Suc (length out1)) out' = out1 @ [(prefix, ''test'', m)])
       \<and> (list_all (\<lambda>x. 0 \<le> x) (elems objectives) \<longrightarrow> mae m = objective m))"
proof -
  define objectives where
    "objectives = get_objective problem Ys
                    (get_decision problem (squeeze (model Xs)) Ys_aux False) Ys_aux"
  define m where
    "m = \<lparr>objective = mean objectives,
          loss = (if elems objectives = [] then None else Some 0),
          mae = (if elems objectives = [] then None
                 else Some (sum_list (map abs (elems objectives))
                            / real (length (elems objectives))))\<rparr>"
  have a: "partition_losses model loss_fn (Xs, Ys, Ys_aux, ''test'') objectives
             = Inr (zeros_like objectives)"
    by (rule partition_losses_test)
  have b: "shape (zeros_like objectives) = shape objectives"
    "\<forall>ix. entry (zeros_like objectives) ix = 0"
    by (simp_all add: zeros_like_def)
  have c: "loss m = mean (zeros_like objectives)"
    "L1Loss (zeros_like objectives) (neg objectives) = Inr (mae m)"
    by (simp_all add: m_def mean_zeros_like L1Loss_zeros_neg)
  have d: "list_all (\<lambda>x. 0 \<le> x) (elems objectives) \<longrightarrow> mae m = objective m"
    by (simp add: m_def mean_def Let_def sum_abs_nonneg)
  from print_metrics_at_test [OF assms, of Ys Xs Ys_aux post] a b c d show ?thesis
    unfolding Let_def objectives_def [symmetric] m_def [symmetric] by blast
qed

theorem print_metrics_test_partition_witness:
  "(let z = \<lparr>shape = [2], entry = (\<lambda>ix. 0)\<rparr>;
        objectives = \<lparr>shape = [2], entry = (\<lambda>ix. 1 + real (ix ! 0))\<rparr>;
        problem = \<lparr>get_decision = (\<lambda>pred aux isTrain. pred),
                   get_objective = (\<lambda>Ys Zs aux. objectives)\<rparr>;
        loss_fn = (\<lambda>pred y aux pname i. \<lparr>shape = [], entry = (\<lambda>ix. 1)\<rparr>);
        mt = \<lparr>objective = Some (3 / 2), loss = Some 1, mae = Some (5 / 2)\<rparr>;
        m = \<lparr>objective = Some (3 / 2), loss = Some 0, mae = Some (3 / 2)\<rparr>
    in print_metrics [(z, z, z, ''train'')] (\<lambda>x. x) problem () loss_fn ''Final'' []
         = ([(''Final'', ''train'', mt)], Inr [''train'' \<mapsto> mt])
     \<and> list_all (\<lambda>x. 0 \<le> x) (elems objectives)
     \<and> ''test'' \<notin> set (map (\<lambda>d. snd (snd (snd d))) ([] :: dataset list))
     \<and> print_metrics [(z, z, z, ''train''), (z, z, z, ''test'')] (\<lambda>x. x) problem ()
           loss_fn ''Final'' []
         = ([(''Final'', ''train'', mt), (''Final'', ''test'', m)],
            Inr [''train'' \<mapsto> mt, ''test'' \<mapsto> m]))"
proof -
  define z :: "real tensor" where "z = \<lparr>shape = [2], entry = (\<lambda>ix. 0)\<rparr>"
  define objectives :: "real tensor" where
    "objectives = \<lparr>shape = [2], entry = (\<lambda>ix. 1 + real (ix ! 0))\<rparr>"
  define problem :: "real tensor problem" where
    "problem = \<lparr>get_decision = (\<lambda>pred aux isTrain. pred),
                get_objective = (\<lambda>Ys Zs aux. objectives)\<rparr>"
  define c :: "real tensor" where "c = \<lparr>shape = [], entry = (\<lambda>ix. 1)\<rparr>"
  define loss_fn :: loss_function where "loss_fn = (\<lambda>pred y aux pname i. c)"
  define mt where "mt = \<lparr>objective = Some (3 / 2), loss = Some 1, mae = Some (5 / 2)\<rparr>"
  define m where "m = \<lparr>objective = Some (3 / 2), loss = Some 0, mae = Some (3 / 2)\<rparr>"
  define s :: "real tensor" where
    "s = \<lparr>shape = [2], entry = (\<lambda>ix. entry ([c, c] ! hd ix) (tl ix))\<rparr>"
  have eo: "elems objectives = [1, 2]"
    by (simp add: elems_def objectives_def upt_rec)
  have mo: "mean objectives = Some (3 / 2)"
    by (simp add: mean_def eo)
  have sl: "sample_losses (\<lambda>x. x) loss_fn z z z ''train'' [0..<2] = Inr [c, c]"
    by (simp add: upt_rec getitem_def z_def loss_fn_def)
  have st: "stack [c, c] = Inr s"
    by (simp add: stack_def s_def c_def)
  have es: "elems s = [1, 1]"
    by (simp add: elems_def s_def upt_rec c_def)
  have fl: "flatten s = \<lparr>shape = [2], entry = (\<lambda>ix. [1, 1] ! (ix ! 0))\<rparr>"
    by (simp add: flatten_def es)
  have ef: "elems (flatten s) = [1, 1]" and sf: "shape (flatten s) = [2]"
    by (simp_all add: fl elems_def upt_rec)
  have lz: "len z = Inr 2"
    by (simp add: len_def z_def)
  have pl: "partition_losses (\<lambda>x. x) loss_fn (z, z, z, ''train'') objectives
              = Inr (flatten s)"
    by (simp add: partition_losses_def lz sl st)
  have en: "elems (neg objectives) = [- 1, - 2]"
    by (simp add: elems_def neg_def objectives_def upt_rec)
  have l1: "L1Loss (flatten s) (neg objectives) = Inr (Some (5 / 2))"
    using L1Loss_same_shape [of "flatten s" "neg objectives"]
    by (simp add: sf ef en) (simp add: neg_def objectives_def)
  have mf: "mean (flatten s) = Some 1"
    by (simp add: mean_def ef)
  have pm: "partition_metrics (\<lambda>x. x) problem loss_fn ''Final'' (z, z, z, ''train'') = Inr mt"
    by (simp add: partition_metrics_def Let_def problem_def pl l1 mo mf mt_def)
  have h: "print_metrics [(z, z, z, ''train'')] (\<lambda>x. x) problem () loss_fn ''Final'' []
             = ([(''Final'', ''train'', mt)], Inr [''train'' \<mapsto> mt])"
    by (simp add: print_metrics_def pm)
  have g: "list_all (\<lambda>x. 0 \<le> x) (elems objectives)"
    by (simp add: eo)
  have "print_metrics ([(z, z, z, ''train'')] @ (z, z, z, ''test'') # []) (\<lambda>x. x) problem ()
           loss_fn ''Final'' []
         = ([(''Final'', ''train'', mt), (''Final'', ''test'', m)],
            Inr [''train'' \<mapsto> mt, ''test'' \<mapsto> m])"
    using print_metrics_test_partition [OF h, of z z z "[]"]
    by (simp add: Let_def problem_def eo mo m_def)
  with h g show ?thesis
    unfolding Let_def z_def [symmetric] objectives_def [symmetric] problem_def [symmetric]
              c_def [symmetric] loss_fn_def [symmetric] mt_def [symmetric] m_def [symmetric]
    by simp
qed

text \<open>
  The claim as stated fails on a test partition with the two objectives \<open>-1\<close> and
  \<open>-2\<close>: the reported \<open>mae\<close> is \<open>3/2\<close>, the mean objective is \<open>-3/2\<close>.
\<close>

theorem print_metrics_test_counterexample:
  "print_metrics
     [(\<lparr>shape = [2], entry = (\<lambda>ix. 0)\<rparr>, \<lparr>shape = [2], entry = (\<lambda>ix. 0)\<rparr>,
       \<lparr>shape = [2], entry = (\<lambda>ix. 0)\<rparr>, ''test'')]
     (\<lambda>x. x)
     \<lparr>get_decision = (\<lambda>pred aux isTrain. pred),
      get_objective = (\<lambda>Ys Zs aux. \<lparr>shape = [2], entry = (\<lambda>ix. - 1 - real (ix ! 0))\<rparr>)\<rparr>
     () (\<lambda>pred y aux pname i. pred) ''Final'' []
   = ([(''Final'', ''test'', \<lparr>objective = Some (- 3 / 2), loss = Some 0, mae = Some (3 / 2)\<rparr>)],
      Inr (Map.empty(''test'' \<mapsto> \<lparr>objective = Some (- 3 / 2), loss = Some 0, mae = Some (3 / 2)\<rparr>)))"
proof -
  let ?o = "\<lparr>shape = [2], entry = (\<lambda>ix. - 1 - real (ix ! 0))\<rparr>"
  let ?z = "\<lparr>shape = [2], entry = (\<lambda>ix. 0::real)\<rparr>"
  have e: "elems ?o = [- 1, - 2]"
    by (simp add: elems_def upt_rec)
  have m: "mean ?o = Some (- 3 / 2)"
    by (simp add: mean_def e)
  show ?thesis
    by (simp add: print_metrics_def partition_metrics_test Let_def e m)
qed

section \<open>Properties of the output capture\<close>

lemma run_plain:
  "plain p \<Longrightarrow> sys_stdout st = StringIO n \<Longrightarrow> buffers st n = Some b \<Longrightarrow>
     run p st = (st\<lparr>buffers := (buffers st)(n \<mapsto> b @ written p)\<rparr>, outcome p)"
proof (induction p arbitrary: st b)
  case (Write tx p)
  let ?st' = "st\<lparr>buffers := (buffers st)(n \<mapsto> b @ tx)\<rparr>"
  have w: "stream_write (sys_stdout st) tx st = Inr ?st'"
    using Write.prems by (simp add: stream_write_def)
  have s: "sys_stdout ?st' = StringIO n" and bf: "buffers ?st' n = Some (b @ tx)"
    using Write.prems by simp_all
  have pl: "plain p"
    using Write.prems by simp
  have "run (Write tx p) st = run p ?st'"
    using w by simp
  also have "\<dots> = (?st'\<lparr>buffers := (buffers ?st')(n \<mapsto> (b @ tx) @ written p)\<rparr>, outcome p)"
    by (rule Write.IH [OF pl s bf])
  also have "?st'\<lparr>buffers := (buffers ?st')(n \<mapsto> (b @ tx) @ written p)\<rparr>
               = st\<lparr>buffers := (buffers st)(n \<mapsto> b @ written (Write tx p))\<rparr>"
    by simp
  finally show ?case by (simp only: outcome.simps)
next
  case (Close p)
  then show ?case by simp
next
  case (Rebind s p)
  then show ?case by simp
next
  case (Return x)
  then have "st\<lparr>buffers := (buffers st)(n \<mapsto> b)\<rparr> = st"
    by (simp add: fun_upd_idem)
  then show ?case by (simp only: run.simps written.simps outcome.simps append_Nil2)
next
  case (Raise e)
  then have "st\<lparr>buffers := (buffers st)(n \<mapsto> b)\<rparr> = st"
    by (simp add: fun_upd_idem)
  then show ?case by (simp only: run.simps written.simps outcome.simps append_Nil2)
qed

lemma run_stays_closed:
  "buffers st n = None \<Longrightarrow> buffers (fst (run p st)) n = None"
proof (induction p arbitrary: st)
  case (Write tx p)
  show ?case
  proof (cases "stream_write (sys_stdout st) tx st")
    case (Inl e)
    then show ?thesis using Write.prems by simp
  next
    case (Inr st')
    then have "buffers st' n = None"
      using Write.prems
      by (auto simp: stream_write_def split: stream.splits if_splits option.splits)
    then show ?thesis
      using Inr Write.IH by simp
  qed
next
  case (Close p)
  have "buffers (stream_close (sys_stdout st) st) n = None"
    using Close.prems by (simp add: stream_close_def split: stream.splits)
  then show ?case
    using Close.IH by simp
next
  case (Rebind s p)
  then show ?case by simp
qed simp_all

lemma run_next_id: "next_id (fst (run p st)) = next_id st"
proof (induction p arbitrary: st)
  case (Write tx p)
  show ?case
  proof (cases "stream_write (sys_stdout st) tx st")
    case (Inl e)
    then show ?thesis by simp
  next
    case (Inr st')
    then have "next_id st' = next_id st"
      by (auto simp: stream_write_def split: stream.splits if_splits option.splits)
    then show ?thesis
      using Inr Write.IH by simp
  qed
next
  case (Close p)
  have "next_id (stream_close (sys_stdout st) st) = next_id st"
    by (simp add: stream_close_def split: stream.splits)
  then show ?case
    using Close.IH by simp
next
  case (Rebind s p)
  then show ?case by simp
qed simp_all

lemma with_Capturing_cases:
  "with_Capturing body st
     = (let n = next_id st;
            st1 = st\<lparr>sys_stdout := StringIO n, buffers := (buffers st)(n \<mapsto> []),
                     next_id := Suc n\<rparr>;
            st2 = fst (run body st1)
        in case buffers st2 n of
             None \<Rightarrow>
               (st2,
                \<lparr>items = [], stdout_attr = Some (sys_stdout st), stringio_attr = Some n\<rparr>,
                Inl ValueError)
           | Some b \<Rightarrow>
               (st2\<lparr>buffers := (buffers st2)(n := None), sys_stdout := sys_stdout st\<rparr>,
                \<lparr>items = splitlines b, stdout_attr = Some (sys_stdout st),
                 stringio_attr = None\<rparr>,
                snd (run body st1)))"
  by (simp add: with_Capturing_def Capturing_enter_def Capturing_new_def Capturing_exit_def
                Let_def split: prod.splits option.splits)

lemma with_Capturing_plain:
  assumes "plain body"
  shows "with_Capturing body st
     = (st\<lparr>buffers := (buffers st)(next_id st := None), next_id := Suc (next_id st)\<rparr>,
        \<lparr>items = splitlines (written body), stdout_attr = Some (sys_stdout st),
         stringio_attr = None\<rparr>,
        outcome body)"
proof -
  let ?n = "next_id st"
  let ?st1 = "st\<lparr>sys_stdout := StringIO ?n, buffers := (buffers st)(?n \<mapsto> []), next_id := Suc ?n\<rparr>"
  have "run body ?st1 = (?st1\<lparr>buffers := (buffers ?st1)(?n \<mapsto> [] @ written body)\<rparr>, outcome body)"
    by (rule run_plain [OF assms]) simp_all
  then show ?thesis
    by (simp add: with_Capturing_cases Let_def)
qed

lemma run_plain_closed:
  "plain p \<Longrightarrow> sys_stdout st = StringIO n \<Longrightarrow> buffers st n = None \<Longrightarrow> fst (run p st) = st"
  by (cases p) (simp_all add: stream_write_def)

lemma with_Capturing_closed:
  assumes "plain p"
  shows "with_Capturing (Close p) st
     = (st\<lparr>sys_stdout := StringIO (next_id st),
           buffers := (buffers st)(next_id st := None),
           next_id := Suc (next_id st)\<rparr>,
        \<lparr>items = [], stdout_attr = Some (sys_stdout st), stringio_attr = Some (next_id st)\<rparr>,
        Inl ValueError)"
proof -
  let ?n = "next_id st"
  let ?st1 = "st\<lparr>sys_stdout := StringIO ?n, buffers := (buffers st)(?n \<mapsto> []), next_id := Suc ?n\<rparr>"
  let ?sc = "st\<lparr>sys_stdout := StringIO ?n, buffers := (buffers st)(?n := None), next_id := Suc ?n\<rparr>"
  have c: "stream_close (sys_stdout ?st1) ?st1 = ?sc"
    by (simp add: stream_close_def)
  have "fst (run p ?sc) = ?sc"
    by (rule run_plain_closed [where n = "next_id st", OF assms]) simp_all
  then have "fst (run (Close p) ?st1) = ?sc"
    by (simp only: run.simps c)
  then show ?thesis
    by (simp add: with_Capturing_cases Let_def)
qed

lemma with_Capturing_closed_any:
  "snd (snd (with_Capturing (Close p) st)) = Inl ValueError
   \<and> items (fst (snd (with_Capturing (Close p) st))) = []
   \<and> buffers (fst (with_Capturing (Close p) st)) (next_id st) = None"
proof -
  let ?n = "next_id st"
  let ?st1 = "st\<lparr>sys_stdout := StringIO ?n, buffers := (buffers st)(?n \<mapsto> []), next_id := Suc ?n\<rparr>"
  let ?sc = "st\<lparr>sys_stdout := StringIO ?n, buffers := (buffers st)(?n := None), next_id := Suc ?n\<rparr>"
  have c: "stream_close (sys_stdout ?st1) ?st1 = ?sc"
    by (simp add: stream_close_def)
  have "buffers (fst (run p ?sc)) ?n = None"
    by (rule run_stays_closed) simp
  then have "buffers (fst (run (Close p) ?st1)) ?n = None"
    by (simp only: run.simps c)
  then show ?thesis
    by (simp add: with_Capturing_cases Let_def)
qed

lemma sys_stdout_stream_write:
  "stream_write s tx st = Inr st' \<Longrightarrow> sys_stdout st' = sys_stdout st"
  by (auto simp: stream_write_def split: stream.splits if_splits option.splits)

lemma capture_sys_stdout:
  "sys_stdout (fst (capture repr body st)) = sys_stdout (fst (with_Capturing body st))"
  by (auto simp: capture_def sys_stdout_stream_write split: prod.splits sum.splits)

lemma capture_plain:
  assumes "plain fn"
  shows "capture repr fn st
     = (let st' = st\<lparr>buffers := (buffers st)(next_id st := None), next_id := Suc (next_id st)\<rparr>
        in case outcome fn of
             Inl e \<Rightarrow> (st', Inl e)
           | Inr x \<Rightarrow>
               if truthy_env st ''LOG_OPT_STDOUT''
               then (case stream_write (sys_stdout st)
                            (repr (splitlines (written fn)) @ [CHR 0x0A]) st' of
                       Inl e \<Rightarrow> (st', Inl e)
                     | Inr st'' \<Rightarrow> (st'', Inr x))
               else (st', Inr x))"
  by (simp add: capture_def with_Capturing_plain [OF assms] Let_def truthy_env_def
           split: sum.splits)

lemma linebreak_LF: "linebreak (CHR 0x0A)"
  by (simp add: linebreak_def)

lemma linebreak_CR: "linebreak (CHR 0x0D)"
  by (simp add: linebreak_def)

lemma splitlines_from_line:
  "\<not> list_ex linebreak l \<Longrightarrow>
     splitlines_from cur (l @ CHR 0x0A # rest) = (cur @ l) # splitlines_from [] rest"
proof (induction l arbitrary: cur)
  case Nil
  show ?case
    by (cases rest) (simp_all add: linebreak_LF)
next
  case (Cons c l)
  then have nb: "\<not> linebreak c" and rest: "\<not> list_ex linebreak l"
    by simp_all
  from nb have ncr: "c \<noteq> CHR 0x0D"
    using linebreak_CR by auto
  obtain d ds where tl: "l @ CHR 0x0A # rest = d # ds"
    by (cases "l @ CHR 0x0A # rest") simp_all
  have "splitlines_from cur ((c # l) @ CHR 0x0A # rest) = splitlines_from cur (c # d # ds)"
    by (simp add: tl)
  also have "\<dots> = splitlines_from (cur @ [c]) (d # ds)"
    using nb ncr by simp
  also have "\<dots> = ((cur @ [c]) @ l) # splitlines_from [] rest"
    unfolding tl [symmetric] by (rule Cons.IH [OF rest])
  finally show ?case by simp
qed

lemma splitlines_print_lines:
  "list_all (\<lambda>l. \<not> list_ex linebreak l) ls \<Longrightarrow>
     splitlines (written (print_lines ls k)) = ls @ splitlines (written k)"
proof (induction ls)
  case Nil
  show ?case by simp
next
  case (Cons l ls)
  then have l: "\<not> list_ex linebreak l" and ls: "list_all (\<lambda>l. \<not> list_ex linebreak l) ls"
    by simp_all
  have "splitlines (written (print_lines (l # ls) k))
          = splitlines_from [] (l @ CHR 0x0A # written (print_lines ls k))"
    by (simp add: splitlines_def)
  also have "\<dots> = l # splitlines (written (print_lines ls k))"
    using splitlines_from_line [OF l, of "[]"] by (simp add: splitlines_def)
  finally show ?case
    using Cons.IH [OF ls] by simp
qed

lemma plain_print_lines: "plain (print_lines ls k) = plain k"
  by (induction ls) simp_all

lemma outcome_print_lines: "outcome (print_lines ls k) = outcome k"
  by (induction ls) simp_all

text \<open>
  C8.  After the \<open>with\<close> block \<open>sys.stdout\<close> is the stream it was before, and the
  \<open>Capturing\<close> object holds the lines of the text that reached the capturing stream,
  exactly when that stream is still open at the end of the block; this is so for every
  function that only writes, however it ends, by returning or by raising: its result or
  exception is passed on, and a function that prints the lines \<open>ls\<close> leaves exactly
  \<open>ls\<close>, in order.  When the function has closed the capturing stream, \<open>__exit__\<close>
  raises ValueError at \<open>getvalue()\<close>, before the assignment that restores
  \<open>sys.stdout\<close>: the block ends with that exception, nothing is captured, and
  \<open>sys.stdout\<close> stays what the function left, the closed stream if the function did
  nothing else; nothing the function does after closing the stream changes that
  ending.  The \<open>capture\<close> wrapper leaves \<open>sys.stdout\<close> as the block does; after
  a function that only writes it passes the result or exception on and prints the
  captured lines to the restored stream when the function returned and
  \<open>LOG_OPT_STDOUT\<close> is set to a non-empty value.
\<close>

theorem Capturing_restores_stdout_unless_closed:
  "with_Capturing body st
     = (let n = next_id st;
            st1 = st\<lparr>sys_stdout := StringIO n, buffers := (buffers st)(n \<mapsto> []),
                     next_id := Suc n\<rparr>;
            st2 = fst (run body st1)
        in case buffers st2 n of
             None \<Rightarrow>
               (st2,
                \<lparr>items = [], stdout_attr = Some (sys_stdout st), stringio_attr = Some n\<rparr>,
                Inl ValueError)
           | Some b \<Rightarrow>
               (st2\<lparr>buffers := (buffers st2)(n := None), sys_stdout := sys_stdout st\<rparr>,
                \<lparr>items = splitlines b, stdout_attr = Some (sys_stdout st),
                 stringio_attr = None\<rparr>,
                snd (run body st1)))
   \<and> sys_stdout (fst (capture repr body st)) = sys_stdout (fst (with_Capturing body st))
   \<and> (plain body \<longrightarrow>
        with_Capturing body st
          = (st\<lparr>buffers := (buffers st)(next_id st := None), next_id := Suc (next_id st)\<rparr>,
             \<lparr>items = splitlines (written body), stdout_attr = Some (sys_stdout st),
              stringio_attr = None\<rparr>,
             outcome body)
      \<and> capture repr body st
          = (let st' = st\<lparr>buffers := (buffers st)(next_id st := None),
                          next_id := Suc (next_id st)\<rparr>
             in case outcome body of
                  Inl e \<Rightarrow> (st', Inl e)
                | Inr x \<Rightarrow>
                    if truthy_env st ''LOG_OPT_STDOUT''
                    then (case stream_write (sys_stdout st)
                                 (repr (splitlines (written body)) @ [CHR 0x0A]) st' of
                            Inl e \<Rightarrow> (st', Inl e)
                          | Inr st'' \<Rightarrow> (st'', Inr x))
                    else (st', Inr x)))
   \<and> (list_all (\<lambda>l. \<not> list_ex linebreak l) ls \<and> plain k \<longrightarrow>
        with_Capturing (print_lines ls k) st
          = (st\<lparr>buffers := (buffers st)(next_id st := None), next_id := Suc (next_id st)\<rparr>,
             \<lparr>items = ls @ splitlines (written k), stdout_attr = Some (sys_stdout st),
              stringio_attr = None\<rparr>,
             outcome k))
   \<and> (plain p \<longrightarrow>
        with_Capturing (Close p) st
          = (st\<lparr>sys_stdout := StringIO (next_id st),
                buffers := (buffers st)(next_id st := None),
                next_id := Suc (next_id st)\<rparr>,
             \<lparr>items = [], stdout_attr = Some (sys_stdout st),
              stringio_attr = Some (next_id st)\<rparr>,
             Inl ValueError))
   \<and> snd (snd (with_Capturing (Close p) st)) = Inl ValueError
   \<and> items (fst (snd (with_Capturing (Close p) st))) = []
   \<and> buffers (fst (with_Capturing (Close p) st)) (next_id st) = None"
proof (intro conjI impI)
  show "with_Capturing body st
     = (let n = next_id st;
            st1 = st\<lparr>sys_stdout := StringIO n, buffers := (buffers st)(n \<mapsto> []),
                     next_id := Suc n\<rparr>;
            st2 = fst (run body st1)
        in case buffers st2 n of
             None \<Rightarrow>
               (st2,
                \<lparr>items = [], stdout_attr = Some (sys_stdout st), stringio_attr = Some n\<rparr>,
                Inl ValueError)
           | Some b \<Rightarrow>
               (st2\<lparr>buffers := (buffers st2)(n := None), sys_stdout := sys_stdout st\<rparr>,
                \<lparr>items = splitlines b, stdout_attr = Some (sys_stdout st),
                 stringio_attr = None\<rparr>,
                snd (run body st1)))"
    by (rule with_Capturing_cases)
  show "sys_stdout (fst (capture repr body st)) = sys_stdout (fst (with_Capturing body st))"
    by (rule capture_sys_stdout)
next
  assume "plain body"
  then show "with_Capturing body st
          = (st\<lparr>buffers := (buffers st)(next_id st := None), next_id := Suc (next_id st)\<rparr>,
             \<lparr>items = splitlines (written body), stdout_attr = Some (sys_stdout st),
              stringio_attr = None\<rparr>,
             outcome body)"
    by (rule with_Capturing_plain)
next
  assume "plain body"
  then show "capture repr body st
          = (let st' = st\<lparr>buffers := (buffers st)(next_id st := None),
                          next_id := Suc (next_id st)\<rparr>
             in case outcome body of
                  Inl e \<Rightarrow> (st', Inl e)
                | Inr x \<Rightarrow>
                    if truthy_env st ''LOG_OPT_STDOUT''
                    then (case stream_write (sys_stdout st)
                                 (repr (splitlines (written body)) @ [CHR 0x0A]) st' of
                            Inl e \<Rightarrow> (st', Inl e)
                          | Inr st'' \<Rightarrow> (st'', Inr x))
                    else (st', Inr x))"
    by (rule capture_plain)
next
  assume a: "list_all (\<lambda>l. \<not> list_ex linebreak l) ls \<and> plain k"
  then have "plain (print_lines ls k)"
    by (simp add: plain_print_lines)
  from with_Capturing_plain [OF this, of st] show "with_Capturing (print_lines ls k) st
          = (st\<lparr>buffers := (buffers st)(next_id st := None), next_id := Suc (next_id st)\<rparr>,
             \<lparr>items = ls @ splitlines (written k), stdout_attr = Some (sys_stdout st),
              stringio_attr = None\<rparr>,
             outcome k)"
    using a by (simp add: splitlines_print_lines outcome_print_lines)
next
  assume "plain p"
  then show "with_Capturing (Close p) st
          = (st\<lparr>sys_stdout := StringIO (next_id st),
                buffers := (buffers st)(next_id st := None),
                next_id := Suc (next_id st)\<rparr>,
             \<lparr>items = [], stdout_attr = Some (sys_stdout st),
              stringio_attr = Some (next_id st)\<rparr>,
             Inl ValueError)"
    by (rule with_Capturing_closed)
next
  show "snd (snd (with_Capturing (Close p) st)) = Inl ValueError"
    and "items (fst (snd (with_Capturing (Close p) st))) = []"
    and "buffers (fst (with_Capturing (Close p) st)) (next_id st) = None"
    using with_Capturing_closed_any [of p st] by simp_all
qed

theorem Capturing_leaves_stdout_redirected:
  "(let st = \<lparr>sys_stdout = Console, console = [], console_closed = False,
              buffers = Map.empty, next_id = 0, environ = Map.empty\<rparr>
    in plain (Return (0::nat))
     \<and> with_Capturing (Close (Return (0::nat))) st
         = (st\<lparr>sys_stdout := StringIO 0, next_id := 1\<rparr>,
            \<lparr>items = [], stdout_attr = Some Console, stringio_attr = Some 0\<rparr>,
            Inl ValueError)
     \<and> sys_stdout (fst (capture (\<lambda>ls. []) (Close (Return (0::nat))) st)) = StringIO 0
     \<and> list_all (\<lambda>l. \<not> list_ex linebreak l) [''a'', ''b'']
     \<and> plain (print_lines [''a'', ''b''] (Raise RuntimeError :: nat prog))
     \<and> with_Capturing (print_lines [''a'', ''b''] (Raise RuntimeError :: nat prog)) st
         = (st\<lparr>next_id := 1\<rparr>,
            \<lparr>items = [''a'', ''b''], stdout_attr = Some Console, stringio_attr = None\<rparr>,
            Inl RuntimeError)
     \<and> capture (\<lambda>ls. []) (print_lines [''a'', ''b''] (Raise RuntimeError :: nat prog)) st
         = (st\<lparr>next_id := 1\<rparr>, Inl RuntimeError))"
proof -
  define st where
    "st = \<lparr>sys_stdout = Console, console = [], console_closed = False,
           buffers = Map.empty, next_id = 0, environ = Map.empty\<rparr>"
  have s: "sys_stdout st = Console" "next_id st = 0" "buffers st = Map.empty"
    by (simp_all add: st_def)
  have e: "st\<lparr>sys_stdout := StringIO 0, buffers := (buffers st)(0 := None), next_id := Suc 0\<rparr>
             = st\<lparr>sys_stdout := StringIO 0, next_id := 1\<rparr>"
    "st\<lparr>buffers := (buffers st)(0 := None), next_id := Suc 0\<rparr> = st\<lparr>next_id := 1\<rparr>"
    by (simp_all add: st_def)
  have h: "plain (Return (0::nat))" "list_all (\<lambda>l. \<not> list_ex linebreak l) [''a'', ''b'']"
    "plain (print_lines [''a'', ''b''] (Raise RuntimeError :: nat prog))"
    "plain (Raise RuntimeError :: nat prog)"
    by (simp_all add: linebreak_def)
  note t = Capturing_restores_stdout_unless_closed
             [of "print_lines [''a'', ''b''] (Raise RuntimeError :: nat prog)" st "\<lambda>ls. []"
                 "[''a'', ''b'']" "Raise RuntimeError" "Return 0"]
  note u = Capturing_restores_stdout_unless_closed
             [of "Close (Return (0::nat))" st "\<lambda>ls. []" "[]" "Return 0" "Return 0"]
  have "with_Capturing (Close (Return (0::nat))) st
          = (st\<lparr>sys_stdout := StringIO (next_id st),
                buffers := (buffers st)(next_id st := None),
                next_id := Suc (next_id st)\<rparr>,
             \<lparr>items = [], stdout_attr = Some (sys_stdout st),
              stringio_attr = Some (next_id st)\<rparr>,
             Inl ValueError)"
    using t h(1) by blast
  then have c: "with_Capturing (Close (Return (0::nat))) st
         = (st\<lparr>sys_stdout := StringIO 0, next_id := 1\<rparr>,
            \<lparr>items = [], stdout_attr = Some Console, stringio_attr = Some 0\<rparr>,
            Inl ValueError)"
    by (simp add: s e)
  have "sys_stdout (fst (capture (\<lambda>ls. []) (Close (Return (0::nat))) st))
          = sys_stdout (fst (with_Capturing (Close (Return (0::nat))) st))"
    using u by blast
  then have c': "sys_stdout (fst (capture (\<lambda>ls. []) (Close (Return (0::nat))) st)) = StringIO 0"
    by (simp add: c)
  have "with_Capturing (print_lines [''a'', ''b''] (Raise RuntimeError :: nat prog)) st
          = (st\<lparr>buffers := (buffers st)(next_id st := None), next_id := Suc (next_id st)\<rparr>,
             \<lparr>items = [''a'', ''b''] @ splitlines (written (Raise RuntimeError :: nat prog)),
              stdout_attr = Some (sys_stdout st), stringio_attr = None\<rparr>,
             outcome (Raise RuntimeError :: nat prog))"
    using t h(2) h(4) by blast
  then have w: "with_Capturing (print_lines [''a'', ''b''] (Raise RuntimeError :: nat prog)) st
         = (st\<lparr>next_id := 1\<rparr>,
            \<lparr>items = [''a'', ''b''], stdout_attr = Some Console, stringio_attr = None\<rparr>,
            Inl RuntimeError)"
    by (simp add: s e splitlines_def)
  have "capture (\<lambda>ls. []) (print_lines [''a'', ''b''] (Raise RuntimeError :: nat prog)) st
          = (let st' = st\<lparr>buffers := (buffers st)(next_id st := None),
                          next_id := Suc (next_id st)\<rparr>
             in case outcome (print_lines [''a'', ''b''] (Raise RuntimeError :: nat prog)) of
                  Inl e \<Rightarrow> (st', Inl e)
                | Inr x \<Rightarrow>
                    if truthy_env st ''LOG_OPT_STDOUT''
                    then (case stream_write (sys_stdout st)
                                 ((\<lambda>ls. []) (splitlines (written
                                    (print_lines [''a'', ''b''] (Raise RuntimeError :: nat prog))))
                                  @ [CHR 0x0A]) st' of
                            Inl e \<Rightarrow> (st', Inl e)
                          | Inr st'' \<Rightarrow> (st'', Inr x))
                    else (st', Inr x))"
    using t h(3) by blast
  then have w': "capture (\<lambda>ls. []) (print_lines [''a'', ''b''] (Raise RuntimeError :: nat prog)) st
         = (st\<lparr>next_id := 1\<rparr>, Inl RuntimeError)"
    by (simp add: s e)
  from h c c' w w' show ?thesis
    unfolding Let_def st_def [symmetric] by blast
qed

section \<open>Integers as doubles\<close>

lemma bit_length_bounds: "2 ^ k \<le> n \<Longrightarrow> n < 2 ^ Suc k \<Longrightarrow> bit_length n = Suc k"
proof (induction k arbitrary: n)
  case 0
  then have "n = 1" by simp
  have "bit_length 0 = 0"
    by (subst bit_length.simps) simp
  then have "bit_length (Suc 0) = Suc 0"
    by (subst bit_length.simps) simp
  with \<open>n = 1\<close> show ?case
    by simp
next
  case (Suc k)
  have "2 ^ k \<le> n div 2" and "n div 2 < 2 ^ Suc k"
    using Suc.prems by auto
  then have "bit_length (n div 2) = Suc k"
    by (rule Suc.IH)
  moreover have "n \<noteq> 0"
    using Suc.prems by auto
  ultimately show ?case
    by (subst bit_length.simps) simp
qed


lemma double_of_int_small: "double_of_int 3 = 3"
proof -
  have b: "bit_length 3 = 2"
    using bit_length_bounds [of 1 3] by simp
  show ?thesis
    by (simp add: double_of_int_def b Let_def)
qed

section \<open>Properties of find_saved_problem\<close>


lemma row_matches_Nil: "row_matches eq cols [] r"
  by (simp add: row_matches_def)

lemma row_matches_Cons:
  "row_matches eq cols ((k, v) # rest) r
     = ((k \<in> set cols \<longrightarrow> cell_eq eq (r k) v) \<and> row_matches eq cols rest r)"
  by (simp add: row_matches_def)


lemma ambiguous_key_Nil: "\<not> ambiguous_key cols []"
  by (simp add: ambiguous_key_def)

lemma ambiguous_key_Cons:
  "ambiguous_key cols ((k, v) # rest)
     = (1 < length (filter (\<lambda>c. c = k) cols) \<or> ambiguous_key cols rest)"
  by (simp add: ambiguous_key_def)

lemma filter_models_char:
  "filter_models eq kwargs df
     = (if ambiguous_key (columns df) kwargs then Inl ValueError
        else Inr (df\<lparr>rows := filter (row_matches eq (columns df) kwargs) (rows df)\<rparr>))"
proof (induction kwargs arbitrary: df)
  case Nil
  then show ?case
    by (simp add: ambiguous_key_Nil row_matches_Nil)
next
  case (Cons kv rest)
  obtain col val where kv: "kv = (col, val)"
    by (cases kv)
  show ?case
  proof (cases "col \<in> set (columns df)")
    case False
    then have "filter (\<lambda>c. c = col) (columns df) = []"
      by (auto simp: filter_empty_conv)
    then have "\<not> 1 < length (filter (\<lambda>c. c = col) (columns df))"
      by simp
    with False show ?thesis
      by (simp add: kv Cons.IH ambiguous_key_Cons row_matches_Cons)
  next
    case True
    show ?thesis
    proof (cases "1 < length (filter (\<lambda>c. c = col) (columns df))")
      case dup: True
      then show ?thesis
        using True by (simp add: kv loc_eq_def ambiguous_key_Cons)
    next
      case nodup: False
      let ?df' = "df\<lparr>rows := filter (\<lambda>r. cell_eq eq (r col) val) (rows df)\<rparr>"
      have l: "loc_eq eq df col val = Inr ?df'"
        using nodup by (simp add: loc_eq_def)
      have "filter_models eq (kv # rest) df = filter_models eq rest ?df'"
        using True l by (simp add: kv)
      also have "\<dots> = (if ambiguous_key (columns df) rest then Inl ValueError
             else Inr (?df'\<lparr>rows := filter (row_matches eq (columns df) rest) (rows ?df')\<rparr>))"
        using Cons.IH [of ?df'] by simp
      also have "\<dots> = (if ambiguous_key (columns df) (kv # rest) then Inl ValueError
             else Inr (df\<lparr>rows := filter (row_matches eq (columns df) (kv # rest)) (rows df)\<rparr>))"
      proof -
        have "row_matches eq (columns df) ((col, val) # rest)
                = (\<lambda>r. cell_eq eq (r col) val \<and> row_matches eq (columns df) rest r)"
          using True by (intro ext) (simp add: row_matches_Cons)
        then show ?thesis
          using nodup by (simp add: kv ambiguous_key_Cons conj_commute)
      qed
      finally show ?thesis .
    qed
  qed
qed

lemma distinct_count_le_one: "distinct cols \<Longrightarrow> length (filter (\<lambda>c. c = k) cols) \<le> Suc 0"
  by (induction cols) (auto simp: filter_empty_conv)

lemma distinct_not_ambiguous: "distinct cols \<Longrightarrow> \<not> ambiguous_key cols kwargs"
  using distinct_count_le_one [of cols]
  by (auto simp: ambiguous_key_def list_ex_iff not_less [symmetric])

lemma ambiguous_filename:
  "(''filename'', v) \<in> set kwargs \<Longrightarrow> ambiguous_key (''filename'' # map fst kwargs) kwargs"
proof -
  assume a: "(''filename'', v) \<in> set kwargs"
  then have "''filename'' \<in> set (map fst kwargs)"
    by force
  then have "filter (\<lambda>c. c = ''filename'') (map fst kwargs) \<noteq> []"
    by (force simp: filter_empty_conv)
  then have "1 < length (filter (\<lambda>c. c = ''filename'') (''filename'' # map fst kwargs))"
    by (cases "filter (\<lambda>c. c = ''filename'') (map fst kwargs)") simp_all
  with a show ?thesis
    unfolding ambiguous_key_def list_ex_iff by (intro bexI [of _ "(''filename'', v)"]) simp_all
qed

lemma ambiguous_filename_iff:
  assumes "distinct (map fst kwargs)"
  shows "ambiguous_key (''filename'' # map fst kwargs) kwargs = (''filename'' \<in> fst ` set kwargs)"
proof
  assume "ambiguous_key (''filename'' # map fst kwargs) kwargs"
  then have "\<not> distinct (''filename'' # map fst kwargs)"
    using distinct_not_ambiguous by blast
  with assms show "''filename'' \<in> fst ` set kwargs"
    by simp
next
  assume "''filename'' \<in> fst ` set kwargs"
  then obtain v where "(''filename'', v) \<in> set kwargs"
    by force
  then show "ambiguous_key (''filename'' # map fst kwargs) kwargs"
    by (rule ambiguous_filename)
qed

lemma find_saved_problem_missing_file:
  assumes "fs master_filename = None"
  shows "find_saved_problem lib master_filename kwargs fs
           = (if ambiguous_key (''filename'' # map fst kwargs) kwargs then Inl ValueError
              else Inr (None, DataFrame (''filename'' # map fst kwargs)))"
  using assms
  by (simp add: find_saved_problem_def filter_models_char DataFrame_def empty_table_def)


lemma find_saved_problem_unreadable:
  assumes "fs master_filename = Some d" and "read_csv lib d = Inl e"
  shows "find_saved_problem lib master_filename kwargs fs = Inl e"
  using assms by (simp add: find_saved_problem_def)

lemma find_saved_problem_absent:
  assumes "fs master_filename = None" and "distinct (map fst kwargs)"
  shows "find_saved_problem lib master_filename kwargs fs
           = (if ''filename'' \<in> fst ` set kwargs then Inl ValueError
              else Inr (None, \<lparr>columns = ''filename'' # map fst kwargs, rows = []\<rparr>))"
  using assms
  by (simp add: find_saved_problem_missing_file ambiguous_filename_iff DataFrame_def)

text \<open>
  C2.  On a path that names no file and a dictionary with distinct keys,
  \<open>find_saved_problem\<close> returns \<open>(None, table)\<close> with an empty table over the columns
  \<open>filename\<close> and the keys, unless \<open>filename\<close> is itself one of the keys: then the
  table has two columns of that name and the filter raises ValueError.
\<close>

theorem find_saved_problem_missing_file_result:
  assumes "fs master_filename = None" and "distinct (map fst kwargs)"
  shows "find_saved_problem lib master_filename kwargs fs
           = (if ''filename'' \<in> fst ` set kwargs then Inl ValueError
              else Inr (None, \<lparr>columns = ''filename'' # map fst kwargs, rows = []\<rparr>))"
  using assms by (rule find_saved_problem_absent)

theorem find_saved_problem_missing_file_raises:
  "(Map.empty :: (int, nat) data filesystem) ''models/P.csv'' = None
   \<and> distinct (map fst [(''n'', Val (3::int)), (''filename'', Str ''models/P_0.pkl'')])
   \<and> find_saved_problem (lossless (=)) ''models/P.csv''
        [(''n'', Val (3::int)), (''filename'', Str ''models/P_0.pkl'')]
        (Map.empty :: (int, nat) data filesystem)
      = Inl ValueError"
  using find_saved_problem_missing_file_result
    [of "Map.empty :: (int, nat) data filesystem" "''models/P.csv''"
        "[(''n'', Val (3::int)), (''filename'', Str ''models/P_0.pkl'')]" "lossless (=)"]
  by simp




section \<open>Properties of init_if_not_saved and its lock\<close>












lemma lock_Unlocked:
  "fn (open_append lib ''.lock'' w, args) = ((w', args'), r) \<Longrightarrow>
     lock lib fn (Unlocked, w, args) = Some ((Unlocked, w', args'), r)"
  by (simp add: lock_def flock_ex_def flock_un_def close_file_def split: sum.splits)

lemma lock_result:
  "lock lib fn (fl, w, args) = Some ((fl', w', args'), r) \<Longrightarrow>
     fl = Unlocked \<and> fl' = Unlocked \<and> fn (open_append lib ''.lock'' w, args) = ((w', args'), r)"
  by (auto simp: lock_def flock_ex_def flock_un_def close_file_def Let_def
           split: if_splits sum.splits prod.splits)

lemma lock_blocked: "fl \<noteq> Unlocked \<Longrightarrow> lock lib fn (fl, w, args) = None"
  by (simp add: lock_def flock_ex_def)

lemma init_if_not_saved_run:
  assumes "init_if_not_saved_body lib pc folder load_new (open_append lib ''.lock'' w, kw)
             = ((w', kw'), r)"
  shows "init_if_not_saved lib pc kw folder load_new (Unlocked, w) = Some ((Unlocked, w', kw'), r)"
  using assms by (simp add: init_if_not_saved_def lock_Unlocked)



lemma body_construct_error:
  assumes "find_saved_problem lib (master_path folder pc) kw (files w) = Inr (found, saved)"
    and "load_new \<or> found = None" and "construct pc kw = Inl e"
  shows "init_if_not_saved_body lib pc folder load_new (w, kw)
           = ((w\<lparr>printed := printed w @ [Problem_saved_as found]\<rparr>, kw), Inl e)"
  using assms unfolding master_path_def
  by (auto simp: init_if_not_saved_body_def Let_def)






text \<open>
  C4.  A call through the lock wrapper that ends with an exception ends with the lock
  free: this holds for every wrapped function and so for \<open>init_if_not_saved\<close>, and when
  the body of \<open>init_if_not_saved\<close> raises with the lock free at the start, the call does
  return that exception, the lock free again.
\<close>

theorem lock_released_when_body_raises:
  "(lock lib fn (fl, w, args) = Some ((fl', w', args'), Inl e) \<longrightarrow> fl' = Unlocked)
   \<and> (init_if_not_saved lib pc kw folder load_new (fl, v) = Some ((fl', v', kw'), Inl e)
        \<longrightarrow> fl' = Unlocked)
   \<and> (init_if_not_saved_body lib pc folder load_new (open_append lib ''.lock'' v, kw)
          = ((v', kw'), Inl e)
        \<longrightarrow> init_if_not_saved lib pc kw folder load_new (Unlocked, v)
              = Some ((Unlocked, v', kw'), Inl e))"
  using lock_result [of lib fn fl w args fl' w' args' "Inl e"]
        lock_result [of lib "init_if_not_saved_body lib pc folder load_new" fl v kw fl' v' kw' "Inl e"]
        init_if_not_saved_run [of lib pc folder load_new v kw v' kw' "Inl e"]
  by (simp add: init_if_not_saved_def)

theorem lock_released_when_body_raises_witness:
  "init_if_not_saved (lossless (=))
     \<lparr>class_name = ''P'', construct = (\<lambda>kw. Inl (OtherError ''boom'') :: error + nat)\<rparr>
     ([] :: int kwargs) ''models'' True
     (Unlocked, \<lparr>files = Map.empty, write_error = Map.empty, printed = []\<rparr>)
   = Some ((Unlocked,
            \<lparr>files = Map.empty(''.lock'' \<mapsto> No_data), write_error = Map.empty,
             printed = [Problem_saved_as None]\<rparr>,
            []),
           Inl (OtherError ''boom''))"
proof -
  let ?lib = "lossless (=) :: (int, nat, (int, nat) data) runtime"
  let ?pc = "\<lparr>class_name = ''P'', construct = (\<lambda>kw. Inl (OtherError ''boom'') :: error + nat)\<rparr>
               :: (int, nat) problem_class"
  let ?w = "\<lparr>files = Map.empty, write_error = Map.empty, printed = []\<rparr>
               :: (int, (int, nat) data) world"
  let ?w' = "\<lparr>files = Map.empty(''.lock'' \<mapsto> No_data), write_error = Map.empty,
              printed = [Problem_saved_as None]\<rparr> :: (int, (int, nat) data) world"
  have o: "open_append ?lib ''.lock'' ?w
             = \<lparr>files = Map.empty(''.lock'' \<mapsto> No_data), write_error = Map.empty, printed = []\<rparr>"
    by (simp add: open_append_def lossless_def)
  have m: "master_path ''models'' ?pc = ''models/P.csv''"
    by (simp add: master_path_def os_path_join_def)
  have f: "find_saved_problem ?lib (master_path ''models'' ?pc) []
             (files (open_append ?lib ''.lock'' ?w))
           = Inr (None, DataFrame [''filename''])"
    unfolding o m by (simp add: find_saved_problem_missing_file ambiguous_key_Nil)
  have "init_if_not_saved_body ?lib ?pc ''models'' True (open_append ?lib ''.lock'' ?w, [])
          = ((?w', []), Inl (OtherError ''boom''))"
    using body_construct_error [OF f, of True "OtherError ''boom''"] by (simp add: o)
  then show ?thesis
    using lock_released_when_body_raises
      [of ?lib _ Unlocked ?w "[]" Unlocked ?w "[]" "OtherError ''boom''"
          ?pc "[]" "''models''" True ?w ?w']
    by simp
qed


























end
